theory Spec2Isabelle
  imports Main "HOL-Library.Word"
begin

unbundle bit_operations_syntax

section \<open>Data model of the per-neighbor FSM (neighbor.go)\<close>

type_synonym byte = "8 word"

text \<open>
  \<^verbatim>\<open>time.Duration\<close> is an int64 count of nanoseconds. It is modelled as \<open>int\<close>:
  the only arithmetic the FSM does on durations is a division by 3, a truncation to whole
  seconds and the product of a uint16 with \<open>time.Second\<close> (at most 65535 * 10^9 < 2^63),
  none of which can leave the int64 range. Go's \<open>/\<close> and \<open>%\<close> truncate towards zero.
\<close>

type_synonym Duration = int

definition Second :: Duration where
  "Second = 1000000000"

definition quo :: "int \<Rightarrow> int \<Rightarrow> int" where
  "quo a b = sgn a * sgn b * (\<bar>a\<bar> div \<bar>b\<bar>)"

definition rem :: "int \<Rightarrow> int \<Rightarrow> int" where
  "rem a b = a - b * quo a b"

text \<open>\<^verbatim>\<open>func (d Duration) Truncate(m Duration)\<close>: \<^verbatim>\<open>if m <= 0 { return d }; return d - d%m\<close>.\<close>

definition Truncate :: "Duration \<Rightarrow> Duration \<Rightarrow> Duration" where
  "Truncate d m = (if m \<le> 0 then d else d - rem d m)"

text \<open>\<^verbatim>\<open>binary.BigEndian.PutUint16\<close> into a fresh two-byte slice.\<close>

definition PutUint16 :: "16 word \<Rightarrow> byte list" where
  "PutUint16 v = [ucast (drop_bit 8 v), ucast v]"

datatype FSMState =
    DisabledState
  | IdleState
  | ConnectState
  | ActiveState
  | OpenSentState
  | OpenConfirmState
  | EstablishedState

record NeighborConfig =
  Address :: "byte list"
  ASN :: "32 word"
  HoldTime :: Duration

subsection \<open>Messages, capabilities and notification codes\<close>

text \<open>
  The message codec is not part of neighbor.go; the types below carry exactly the fields
  the FSM reads. The notification codes and subcodes are the named constants the FSM
  passes around; the literal subcode \<open>0\<close> of Cease and HoldTimerExpired is
  \<open>NotifErrSubcodeNone\<close>.
\<close>

datatype NotifErrCode =
    NotifErrCodeMessageHeader
  | NotifErrCodeOpenMessage
  | NotifErrCodeHoldTimerExpired
  | NotifErrCodeCease

datatype NotifErrSubcode =
    NotifErrSubcodeNone
  | NotifErrSubcodeBadType
  | NotifErrSubcodeUnsupportedVersionNumber
  | NotifErrSubcodeBadPeerAS
  | NotifErrSubcodeBadBgpID
  | NotifErrSubcodeUnsupportedOptParam
  | NotifErrSubcodeUnacceptableHoldTime
  | NotifErrSubcodeUnsupportedCapability

datatype capability =
    capFourOctetAs "32 word"
  | capMultiproto "16 word" "8 word"
  | capUnknown "byte" "byte list"

datatype optParam =
    capabilityOptParam "capability list"
  | unknownOptParam "byte" "byte list"

record openMessage =
  version :: "byte"
  asn :: "16 word"
  holdTime :: "16 word"
  bgpID :: "32 word"
  optParams :: "optParam list"

record NotificationMessage =
  Code :: NotifErrCode
  Subcode :: NotifErrSubcode
  Data :: "byte list"

datatype UpdateMessage = UpdateMessage "byte list"

datatype Message =
    Open openMessage
  | Update UpdateMessage
  | Notification NotificationMessage
  | KeepAlive

text \<open>
  A Go \<^verbatim>\<open>error\<close> value: either the FSM's own \<^verbatim>\<open>*errWithNotification\<close> (message, code,
  subcode, data; \<^verbatim>\<open>nil\<close> data is the empty list) or any other error, known by its message.
\<close>

datatype error =
    errWithNotification string NotifErrCode NotifErrSubcode "byte list"
  | errorString string

text \<open>
  Modelled from the spec: the constants \<^verbatim>\<open>asTrans\<close>, \<^verbatim>\<open>BgpLsAFI\<close>, \<^verbatim>\<open>BgpLsSAFI\<close> and
  \<^verbatim>\<open>OpenMessageType\<close> are declared outside neighbor.go. The glossary gives AS_TRANS = 23456
  and AFI = 16388, SAFI = 71/72 for BGP-LS (71 is taken here; no proof below looks at the
  value of the AFI or of the SAFI), and section 6 gives OPEN(1).
\<close>

definition asTrans :: "16 word" where
  "asTrans = 23456"

definition BgpLsAFI :: "16 word" where
  "BgpLsAFI = 16388"

definition BgpLsSAFI :: "8 word" where
  "BgpLsSAFI = 71"

definition OpenMessageType :: "byte" where
  "OpenMessageType = 1"

subsection \<open>The FSM's own state\<close>

text \<open>
  The fields of \<^verbatim>\<open>standardFSM\<close> that the driver computes with. \<open>neighbor\<close> stands for
  \<^verbatim>\<open>f.neighbor.config()\<close>. Channels, timers and the connection are not values of the
  record: what the driver does to them is recorded as a list of actions (below).
\<close>

record standardFSM =
  neighbor :: NeighborConfig
  localASN :: "32 word"
  s :: FSMState
  keepAliveTime :: Duration
  holdTime :: Duration

text \<open>What a call of the driver's goroutine comes to: it returns, panics, or blocks forever
  in a \<^verbatim>\<open>select\<close> none of whose cases becomes ready.\<close>

datatype 'a outcome = Returns 'a | Panics | Blocks

text \<open>\<^verbatim>\<open>newFSM\<close>: the initial context (the timers are created and drained, the driver is
  started).\<close>

definition newFSM :: "NeighborConfig \<Rightarrow> 32 word \<Rightarrow> standardFSM" where
  "newFSM config lASN =
     \<lparr> neighbor = config,
       localASN = lASN,
       s = IdleState,
       keepAliveTime = Truncate (quo (HoldTime config) 3) Second,
       holdTime = HoldTime config \<rparr>"

section \<open>The OPEN validator\<close>

definition errBadPeerAS :: "string \<Rightarrow> error" where
  "errBadPeerAS msg = errWithNotification msg NotifErrCodeOpenMessage NotifErrSubcodeBadPeerAS []"

text \<open>The inner loop \<^verbatim>\<open>for _, c := range capOptParam.caps\<close>, on the flags
  \<open>(fourOctetAsFound, bgpLsAfFound)\<close>.\<close>

fun validateOpen_caps :: "32 word \<Rightarrow> capability list \<Rightarrow> bool \<times> bool \<Rightarrow> error + bool \<times> bool" where
  "validateOpen_caps cfgASN [] flags = Inr flags"
| "validateOpen_caps cfgASN (capFourOctetAs a # cs) (fourOctetAsFound, bgpLsAfFound) =
     (if a \<noteq> cfgASN then Inl (errBadPeerAS ''bad peer AS'')
      else validateOpen_caps cfgASN cs (True, bgpLsAfFound))"
| "validateOpen_caps cfgASN (capMultiproto af sf # cs) (fourOctetAsFound, bgpLsAfFound) =
     validateOpen_caps cfgASN cs
       (fourOctetAsFound, if af = BgpLsAFI \<and> sf = BgpLsSAFI then True else bgpLsAfFound)"
| "validateOpen_caps cfgASN (capUnknown c d # cs) flags = validateOpen_caps cfgASN cs flags"

text \<open>The outer loop \<^verbatim>\<open>for _, p := range msg.optParams\<close>.\<close>

fun validateOpen_optParams :: "32 word \<Rightarrow> optParam list \<Rightarrow> bool \<times> bool \<Rightarrow> error + bool \<times> bool" where
  "validateOpen_optParams cfgASN [] flags = Inr flags"
| "validateOpen_optParams cfgASN (capabilityOptParam caps # ps) flags =
     (case validateOpen_caps cfgASN caps flags of
        Inl e \<Rightarrow> Inl e
      | Inr flags' \<Rightarrow> validateOpen_optParams cfgASN ps flags')"
| "validateOpen_optParams cfgASN (unknownOptParam t d # ps) flags =
     Inl (errWithNotification ''non-capability optional parameter found''
            NotifErrCodeOpenMessage NotifErrSubcodeUnsupportedOptParam [])"

text \<open>
  \<^verbatim>\<open>validateOpen\<close>. Its first argument is \<^verbatim>\<open>(*capMultiproto).serialize\<close>, which is not in
  neighbor.go: \<open>None\<close> is a serialization error, on which the code panics.

  The test \<^verbatim>\<open>float64(msg.holdTime) < f.holdTime.Seconds()\<close> is written on the integers.
  \<^verbatim>\<open>Seconds()\<close> is \<open>float64(d / Second) + float64(d % Second) / 1e9\<close>: the first summand
  is exact, the second lies strictly between -1 and 1 and is 0 exactly when the remainder
  is. A sum that is not a whole number is at least 10^-9 away from the next whole number,
  far more than the spacing (2^-36) of the doubles below 2^17, and rounding is monotone.
  So for a hold time in 0..65535 the comparison is true exactly when
  \<open>msg.holdTime * 10^9 < d\<close>.
\<close>

definition validateOpen ::
  "(capability \<Rightarrow> byte list option) \<Rightarrow> standardFSM \<Rightarrow> openMessage
     \<Rightarrow> (error option \<times> standardFSM) outcome" where
  "validateOpen serialize f msg =
    (if version msg \<noteq> 4 then
       Returns (Some (errWithNotification ''unsupported version number''
                  NotifErrCodeOpenMessage NotifErrSubcodeUnsupportedVersionNumber (PutUint16 4)), f)
     else
       let fourOctetAS = (asn msg = asTrans) in
       if \<not> fourOctetAS \<and> asn msg \<noteq> ucast (ASN (neighbor f)) then
         Returns (Some (errBadPeerAS ''bad peer AS''), f)
       else if openMessage.holdTime msg < 3 then
         Returns (Some (errWithNotification ''hold time must be >=3''
                    NotifErrCodeOpenMessage NotifErrSubcodeUnacceptableHoldTime []), f)
       else
         let f' = (if uint (openMessage.holdTime msg) * Second < holdTime f
                   then f\<lparr> holdTime := uint (openMessage.holdTime msg) * Second,
                           keepAliveTime :=
                             Truncate (quo (uint (openMessage.holdTime msg) * Second) 3) Second \<rparr>
                   else f) in
         if bgpID msg = 0 then
           Returns (Some (errWithNotification ''bgp ID cannot be 0''
                      NotifErrCodeOpenMessage NotifErrSubcodeBadBgpID []), f')
         else
           (case validateOpen_optParams (ASN (neighbor f)) (optParams msg) (False, False) of
              Inl e \<Rightarrow> Returns (Some e, f')
            | Inr (fourOctetAsFound, bgpLsAfFound) \<Rightarrow>
                if \<not> bgpLsAfFound then
                  (case serialize (capMultiproto BgpLsAFI BgpLsSAFI) of
                     None \<Rightarrow> Panics
                   | Some b \<Rightarrow>
                       Returns (Some (errWithNotification ''bgp-ls capability not found''
                                  NotifErrCodeOpenMessage NotifErrSubcodeUnsupportedCapability b), f'))
                else if fourOctetAS \<and> \<not> fourOctetAsFound then
                  Returns (Some (errBadPeerAS
                     ''4-octet AS indicated in as field but not found in capabilities''), f')
                else Returns (None, f')))"

section \<open>The driver: what it does and what it waits for\<close>

datatype Event =
    EventNeighborStateTransition NeighborConfig FSMState
  | EventNeighborErr NeighborConfig error
  | EventNeighborHoldTimerExpired NeighborConfig
  | EventNeighborNotificationReceived NeighborConfig NotificationMessage
  | EventNeighborUpdateReceived NeighborConfig UpdateMessage

text \<open>
  The effects of the driver, in program order. \<open>Emit\<close> is a send on \<^verbatim>\<open>f.events\<close> that went
  through; \<open>SendNotification\<close> is a call of \<^verbatim>\<open>f.sendNotification\<close> (it serializes and writes;
  every caller drops its result); \<open>WriteOpen\<close> and \<open>WriteKeepAlive\<close> are calls of
  \<^verbatim>\<open>f.conn.Write\<close> with the serialized message, whether or not the write succeeds;
  \<open>StartReader\<close> is \<^verbatim>\<open>f.conn = conn; go f.read()\<close>; \<open>EchoDisable\<close> is the driver's
  \<^verbatim>\<open>f.disable <- nil\<close>.
\<close>

datatype action =
    Emit Event
  | SendNotification NotifErrCode NotifErrSubcode "byte list"
  | WriteOpen openMessage
  | WriteKeepAlive
  | CleanupConn
  | DrainHoldTimer
  | ResetHoldTimer Duration
  | ResetKeepAliveTimer Duration
  | ResetConnectRetryTimer Duration
  | StopConnectRetryTimer
  | Dial
  | CancelDial
  | StartReader
  | EchoDisable

text \<open>
  The environment decides which case of a \<^verbatim>\<open>select\<close> becomes ready and what the calls into
  the codec and the connection return. \<open>race\<close> is the outcome of
  \<^verbatim>\<open>select { case f.events <- event: ... case <-f.disable: ... }\<close>.
\<close>

datatype race = EventSent | DisableReceived

text \<open>After the dial: \<^verbatim>\<open>newOpenMessage\<close> fails (then an event is emitted), \<^verbatim>\<open>o.serialize()\<close>
  fails, the write fails (then an event is emitted), or the write succeeds.\<close>

datatype openStep =
    NewOpenFails string race
  | SerializeFails
  | WriteFails string race
  | WriteSucceeds

datatype connectSelect =
    ConnectDisable
  | ConnectRetryTimerThenConn openStep
  | ConnectRetryTimerThenDialErr
  | ConnectDialErr string race
  | ConnectConn openStep

datatype activeSelect = ActiveDisable | ActiveRetryTimer

text \<open>\<^verbatim>\<open>sendKeepAlive\<close>: serializing fails (a panic), the write fails, or it succeeds.\<close>

datatype keepAliveStep =
    KeepAliveSerializeFails
  | KeepAliveWriteFails string
  | KeepAliveWritten

text \<open>The \<open>race\<close> of a received message is the outcome of the one emit its handling can
  reach, and its \<open>keepAliveStep\<close> that of the one KEEPALIVE it can make the FSM send; a path
  that reaches neither ignores them.\<close>

datatype openSentSelect =
    OpenSentDisable
  | OpenSentReaderErr error race
  | OpenSentHoldTimer race
  | OpenSentMsg Message race keepAliveStep

datatype openConfirmSelect =
    OpenConfirmDisable
  | OpenConfirmReaderErr error race
  | OpenConfirmHoldTimer race
  | OpenConfirmMsg Message race

datatype establishedSelect =
    EstablishedDisable
  | EstablishedReaderErr error race
  | EstablishedHoldTimer race
  | EstablishedKeepAliveTimer keepAliveStep race
  | EstablishedMsg Message race

datatype handlerEnv =
    EnvIdle
  | EnvConnect connectSelect
  | EnvActive activeSelect
  | EnvOpenSent openSentSelect
  | EnvOpenConfirm openConfirmSelect
  | EnvEstablished "establishedSelect list"

subsection \<open>Constants and the codec's constructor\<close>

definition connectRetryTime :: Duration where
  "connectRetryTime = 5 * Second"

definition errInvalidStateTransition :: error where
  "errInvalidStateTransition = errorString ''invalid state transition''"

text \<open>\<^verbatim>\<open>binary.BigEndian.Uint32\<close> of a four-byte slice.\<close>

definition Uint32 :: "byte list \<Rightarrow> 32 word" where
  "Uint32 bs = foldl (\<lambda>acc b. push_bit 8 acc OR ucast b) 0 bs"

text \<open>
  Modelled from the spec: \<^verbatim>\<open>newOpenMessage\<close> belongs to the message codec, which is not in
  neighbor.go. Section 4.4.2 gives the OPEN it builds: version 4, the ASN or AS_TRANS when
  the ASN is above 65535, the hold time, the BGP identifier, and one capability parameter
  holding Four-Octet-AS and Multiprotocol(BGP-LS, BGP-LS). \<^verbatim>\<open>TestOpenMessage\<close> fixes the
  fields: \<^verbatim>\<open>uint16(holdTime/time.Second)\<close> and the big-endian value of the last four bytes
  of the address. When the constructor fails is not specified; that is left to the
  environment (\<open>NewOpenFails\<close>).
\<close>

definition newOpenMessage :: "32 word \<Rightarrow> Duration \<Rightarrow> byte list \<Rightarrow> openMessage" where
  "newOpenMessage a ht ip =
     \<lparr> version = 4,
       asn = (if 65535 < a then asTrans else ucast a),
       openMessage.holdTime = word_of_int (quo ht Second),
       bgpID = Uint32 (drop (length ip - 4) ip),
       optParams = [capabilityOptParam [capFourOctetAs a, capMultiproto BgpLsAFI BgpLsSAFI]] \<rparr>"

text \<open>Modelled from the spec: the printed form of a message's type (\<^verbatim>\<open>m.MessageType()\<close> under
  \<^verbatim>\<open>%s\<close>) is the codec's; the names of section 6 stand for it.\<close>

fun MessageTypeString :: "Message \<Rightarrow> string" where
  "MessageTypeString (Open m) = ''OPEN''"
| "MessageTypeString (Update m) = ''UPDATE''"
| "MessageTypeString (Notification m) = ''NOTIFICATION''"
| "MessageTypeString KeepAlive = ''KEEPALIVE''"

subsection \<open>The transition guard and shutdown\<close>

text \<open>\<^verbatim>\<open>transition\<close>. Its \<^verbatim>\<open>default\<close> branch ("invalid state") is for values of the uint8
  outside the seven constants, which \<open>FSMState\<close> does not have.\<close>

definition transition :: "standardFSM \<Rightarrow> FSMState \<Rightarrow> error + standardFSM" where
  "transition f state =
    (case state of
       DisabledState \<Rightarrow> Inr (f\<lparr> s := DisabledState \<rparr>)
     | IdleState \<Rightarrow> Inr (f\<lparr> s := IdleState \<rparr>)
     | ConnectState \<Rightarrow>
         if s f = IdleState \<or> s f = ConnectState \<or> s f = ActiveState
         then Inr (f\<lparr> s := ConnectState \<rparr>) else Inl errInvalidStateTransition
     | ActiveState \<Rightarrow>
         if s f = ConnectState \<or> s f = ActiveState \<or> s f = OpenSentState
         then Inr (f\<lparr> s := ActiveState \<rparr>) else Inl errInvalidStateTransition
     | OpenSentState \<Rightarrow>
         if s f = ConnectState \<or> s f = ActiveState
         then Inr (f\<lparr> s := OpenSentState \<rparr>) else Inl errInvalidStateTransition
     | OpenConfirmState \<Rightarrow>
         if s f = OpenSentState \<or> s f = OpenConfirmState
         then Inr (f\<lparr> s := OpenConfirmState \<rparr>) else Inl errInvalidStateTransition
     | EstablishedState \<Rightarrow>
         if s f = OpenConfirmState \<or> s f = EstablishedState
         then Inr (f\<lparr> s := EstablishedState \<rparr>) else Inl errInvalidStateTransition)"

definition transitionAndPanicOnErr :: "standardFSM \<Rightarrow> FSMState \<Rightarrow> standardFSM outcome" where
  "transitionAndPanicOnErr f state =
     (case transition f state of Inl err \<Rightarrow> Panics | Inr f' \<Rightarrow> Returns f')"

text \<open>
  \<^verbatim>\<open>shut\<close>, called once the driver has returned: it comes back at once when the state is
  \<open>DisabledState\<close>; otherwise it sends on the unbuffered \<^verbatim>\<open>f.disable\<close>, which only the
  driver ever receives from, and blocks.
\<close>

definition shut_after_exit :: "standardFSM \<Rightarrow> unit outcome" where
  "shut_after_exit f = (if s f = DisabledState then Returns () else Blocks)"

subsection \<open>The state handlers\<close>

text \<open>A handler gives the actions it performed and the next state; \<open>openSent\<close> also gives
  the context, which \<open>validateOpen\<close> may have changed.\<close>

definition idle :: "standardFSM \<Rightarrow> FSMState" where
  "idle f = ConnectState"

definition sendCease :: action where
  "sendCease = SendNotification NotifErrCodeCease NotifErrSubcodeNone []"

definition sendHoldTimerExpired :: action where
  "sendHoldTimerExpired = SendNotification NotifErrCodeHoldTimerExpired NotifErrSubcodeNone []"

definition handleErr :: "standardFSM \<Rightarrow> error \<Rightarrow> FSMState \<Rightarrow> race \<Rightarrow> action list \<times> FSMState" where
  "handleErr f err nextState r =
     (let notif = (case err of
                     errWithNotification m c sc d \<Rightarrow> [SendNotification c sc d]
                   | errorString m \<Rightarrow> [])
      in case r of
           EventSent \<Rightarrow>
             (notif @ [Emit (EventNeighborErr (neighbor f) err), DrainHoldTimer, CleanupConn],
              nextState)
         | DisableReceived \<Rightarrow> (notif @ [DrainHoldTimer, CleanupConn], DisabledState))"

definition handleHoldTimerExpired :: "standardFSM \<Rightarrow> FSMState \<Rightarrow> race \<Rightarrow> action list \<times> FSMState" where
  "handleHoldTimerExpired f nextState r =
     (case r of
        EventSent \<Rightarrow>
          ([sendHoldTimerExpired, Emit (EventNeighborHoldTimerExpired (neighbor f)), CleanupConn],
           nextState)
      | DisableReceived \<Rightarrow> ([sendHoldTimerExpired, CleanupConn], DisabledState))"

text \<open>The second half of \<^verbatim>\<open>connect\<close> (from \<^verbatim>\<open>newOpenMessage\<close> on), reached with a connection.\<close>

definition connect_sendOpen :: "standardFSM \<Rightarrow> openStep \<Rightarrow> (action list \<times> FSMState) outcome" where
  "connect_sendOpen f step =
     (let opn = newOpenMessage (localASN f) (holdTime f) (Address (neighbor f)) in
      case step of
        NewOpenFails e r \<Rightarrow>
          (case r of
             EventSent \<Rightarrow>
               Returns ([Emit (EventNeighborErr (neighbor f)
                           (errorString (''error creating open message: '' @ e))), CleanupConn],
                        IdleState)
           | DisableReceived \<Rightarrow> Returns ([CleanupConn], DisabledState))
      | SerializeFails \<Rightarrow> Panics
      | WriteFails e r \<Rightarrow>
          (case r of
             EventSent \<Rightarrow>
               Returns ([WriteOpen opn,
                         Emit (EventNeighborErr (neighbor f)
                           (errorString (''error sending open message: '' @ e))), CleanupConn],
                        ConnectState)
           | DisableReceived \<Rightarrow> Returns ([WriteOpen opn, CleanupConn], DisabledState))
      | WriteSucceeds \<Rightarrow> Returns ([WriteOpen opn], OpenSentState))"

definition prepend :: "action list \<Rightarrow> (action list \<times> 'a) outcome \<Rightarrow> (action list \<times> 'a) outcome" where
  "prepend acts r =
     (case r of Returns (acts', x) \<Rightarrow> Returns (acts @ acts', x) | Panics \<Rightarrow> Panics | Blocks \<Rightarrow> Blocks)"

definition connect :: "standardFSM \<Rightarrow> connectSelect \<Rightarrow> (action list \<times> FSMState) outcome" where
  "connect f sel =
     prepend [ResetConnectRetryTimer connectRetryTime, Dial]
       (case sel of
          ConnectDisable \<Rightarrow> Returns ([CancelDial], DisabledState)
        | ConnectRetryTimerThenConn step \<Rightarrow>
            prepend [CancelDial, StartReader] (connect_sendOpen f step)
        | ConnectRetryTimerThenDialErr \<Rightarrow> Returns ([CancelDial], ConnectState)
        | ConnectDialErr e r \<Rightarrow>
            (case r of
               EventSent \<Rightarrow>
                 Returns ([CancelDial,
                           Emit (EventNeighborErr (neighbor f)
                             (errorString (''error connecting to neighbor: '' @ e))),
                           StopConnectRetryTimer], ActiveState)
             | DisableReceived \<Rightarrow> Returns ([CancelDial, StopConnectRetryTimer], DisabledState))
        | ConnectConn step \<Rightarrow>
            prepend [CancelDial, StopConnectRetryTimer, StartReader] (connect_sendOpen f step))"

definition active :: "standardFSM \<Rightarrow> activeSelect \<Rightarrow> action list \<times> FSMState" where
  "active f sel =
     (case sel of
        ActiveDisable \<Rightarrow> ([ResetConnectRetryTimer connectRetryTime], DisabledState)
      | ActiveRetryTimer \<Rightarrow> ([ResetConnectRetryTimer connectRetryTime], ConnectState))"

definition openSent ::
  "(capability \<Rightarrow> byte list option) \<Rightarrow> standardFSM \<Rightarrow> openSentSelect
     \<Rightarrow> (action list \<times> FSMState \<times> standardFSM) outcome" where
  "openSent serialize f sel =
     prepend [ResetHoldTimer (holdTime f)]
       (case sel of
          OpenSentDisable \<Rightarrow> Returns ([sendCease, DrainHoldTimer, CleanupConn], DisabledState, f)
        | OpenSentReaderErr err r \<Rightarrow>
            (case handleErr f err ActiveState r of (acts, st) \<Rightarrow> Returns (acts, st, f))
        | OpenSentHoldTimer r \<Rightarrow>
            (case handleHoldTimerExpired f IdleState r of (acts, st) \<Rightarrow> Returns (acts, st, f))
        | OpenSentMsg m r ka \<Rightarrow>
            (case m of
               Open msg \<Rightarrow>
                 (case validateOpen serialize f msg of
                    Panics \<Rightarrow> Panics
                  | Blocks \<Rightarrow> Blocks
                  | Returns (Some err, f') \<Rightarrow>
                      (case handleErr f' err IdleState r of (acts, st) \<Rightarrow> Returns (acts, st, f'))
                  | Returns (None, f') \<Rightarrow>
                      (case ka of
                         KeepAliveSerializeFails \<Rightarrow> Panics
                       | KeepAliveWriteFails e \<Rightarrow>
                           (case handleErr f' (errorString e) IdleState r of
                              (acts, st) \<Rightarrow> Returns (WriteKeepAlive # acts, st, f'))
                       | KeepAliveWritten \<Rightarrow>
                           Returns ([WriteKeepAlive, DrainHoldTimer, ResetHoldTimer (holdTime f')],
                                    OpenConfirmState, f')))
             | Notification notif \<Rightarrow>
                 (case r of
                    EventSent \<Rightarrow>
                      Returns ([Emit (EventNeighborNotificationReceived (neighbor f) notif),
                                DrainHoldTimer, CleanupConn], IdleState, f)
                  | DisableReceived \<Rightarrow> Returns ([DrainHoldTimer, CleanupConn], DisabledState, f))
             | Update u \<Rightarrow> Returns ([DrainHoldTimer, CleanupConn], IdleState, f)
             | KeepAlive \<Rightarrow> Returns ([DrainHoldTimer, CleanupConn], IdleState, f)))"

text \<open>\<^verbatim>\<open>openConfirm\<close>: every case of the \<^verbatim>\<open>select\<close> in its \<^verbatim>\<open>for\<close> returns.\<close>

definition openConfirm :: "standardFSM \<Rightarrow> openConfirmSelect \<Rightarrow> action list \<times> FSMState" where
  "openConfirm f sel =
     (case sel of
        OpenConfirmDisable \<Rightarrow> ([sendCease, DrainHoldTimer, CleanupConn], DisabledState)
      | OpenConfirmReaderErr err r \<Rightarrow> handleErr f err IdleState r
      | OpenConfirmHoldTimer r \<Rightarrow> handleHoldTimerExpired f IdleState r
      | OpenConfirmMsg m r \<Rightarrow>
          (case m of
             KeepAlive \<Rightarrow>
               ([DrainHoldTimer, ResetHoldTimer (holdTime f), ResetKeepAliveTimer (keepAliveTime f)],
                EstablishedState)
           | _ \<Rightarrow>
               handleErr f
                 (errorString (''message received in openConfirm state is not a keepalive, type: ''
                    @ MessageTypeString m))
                 IdleState r))"

text \<open>\<^verbatim>\<open>established\<close>: the \<^verbatim>\<open>for\<close> loop takes one ready case per round; with none left it
  is blocked in the \<^verbatim>\<open>select\<close>.\<close>

fun established :: "standardFSM \<Rightarrow> establishedSelect list \<Rightarrow> (action list \<times> FSMState) outcome" where
  "established f [] = Blocks"
| "established f (EstablishedDisable # rest) =
     Returns ([sendCease, DrainHoldTimer, CleanupConn], DisabledState)"
| "established f (EstablishedReaderErr err r # rest) = Returns (handleErr f err IdleState r)"
| "established f (EstablishedHoldTimer r # rest) = Returns (handleHoldTimerExpired f IdleState r)"
| "established f (EstablishedKeepAliveTimer ka r # rest) =
     (case ka of
        KeepAliveSerializeFails \<Rightarrow> Panics
      | KeepAliveWriteFails e \<Rightarrow>
          (case handleErr f (errorString e) IdleState r of
             (acts, st) \<Rightarrow> Returns (WriteKeepAlive # acts, st))
      | KeepAliveWritten \<Rightarrow>
          prepend [WriteKeepAlive, ResetKeepAliveTimer (keepAliveTime f)] (established f rest))"
| "established f (EstablishedMsg KeepAlive r # rest) =
     prepend [DrainHoldTimer, ResetHoldTimer (holdTime f)] (established f rest)"
| "established f (EstablishedMsg (Update m) r # rest) =
     (case r of
        EventSent \<Rightarrow>
          prepend [DrainHoldTimer, ResetHoldTimer (holdTime f),
                   Emit (EventNeighborUpdateReceived (neighbor f) m)] (established f rest)
      | DisableReceived \<Rightarrow>
          Returns ([DrainHoldTimer, ResetHoldTimer (holdTime f),
                    sendCease, DrainHoldTimer, CleanupConn], DisabledState))"
| "established f (EstablishedMsg (Notification m) r # rest) =
     (case r of
        EventSent \<Rightarrow>
          Returns ([Emit (EventNeighborNotificationReceived (neighbor f) m),
                    DrainHoldTimer, CleanupConn], IdleState)
      | DisableReceived \<Rightarrow> Returns ([DrainHoldTimer, CleanupConn], DisabledState))"
| "established f (EstablishedMsg (Open m) r # rest) =
     (case r of
        EventSent \<Rightarrow>
          Returns ([Emit (EventNeighborErr (neighbor f)
                      (errorString ''open message received while in established state'')),
                    SendNotification NotifErrCodeMessageHeader NotifErrSubcodeBadType [OpenMessageType],
                    DrainHoldTimer, CleanupConn], IdleState)
      | DisableReceived \<Rightarrow> Returns ([DrainHoldTimer, CleanupConn], DisabledState))"

subsection \<open>The driver loop\<close>

text \<open>The \<^verbatim>\<open>switch state\<close> of \<^verbatim>\<open>loop\<close> for the states other than \<open>DisabledState\<close>: the
  handler of the state, run on the environment's choices for it. Choices meant for another
  handler never become ready.\<close>

fun loop_dispatch ::
  "(capability \<Rightarrow> byte list option) \<Rightarrow> standardFSM \<Rightarrow> FSMState \<Rightarrow> handlerEnv
     \<Rightarrow> (action list \<times> FSMState \<times> standardFSM) outcome" where
  "loop_dispatch serialize f IdleState env = Returns ([], idle f, f)"
| "loop_dispatch serialize f ConnectState (EnvConnect sel) =
     (case connect f sel of
        Returns (acts, st) \<Rightarrow> Returns (acts, st, f) | Panics \<Rightarrow> Panics | Blocks \<Rightarrow> Blocks)"
| "loop_dispatch serialize f ActiveState (EnvActive sel) =
     (case active f sel of (acts, st) \<Rightarrow> Returns (acts, st, f))"
| "loop_dispatch serialize f OpenSentState (EnvOpenSent sel) = openSent serialize f sel"
| "loop_dispatch serialize f OpenConfirmState (EnvOpenConfirm sel) =
     (case openConfirm f sel of (acts, st) \<Rightarrow> Returns (acts, st, f))"
| "loop_dispatch serialize f EstablishedState (EnvEstablished sels) =
     (case established f sels of
        Returns (acts, st) \<Rightarrow> Returns (acts, st, f) | Panics \<Rightarrow> Panics | Blocks \<Rightarrow> Blocks)"
| "loop_dispatch serialize f state env = Blocks"

text \<open>
  \<^verbatim>\<open>loop\<close>. Each round of the environment is the outcome of the emit of the state
  transition event and the choices for the state's handler. The result is the actions up
  to the driver's return and the context it leaves behind.
\<close>

fun loop ::
  "(capability \<Rightarrow> byte list option) \<Rightarrow> standardFSM \<Rightarrow> (race \<times> handlerEnv) list
     \<Rightarrow> (action list \<times> standardFSM) outcome" where
  "loop serialize f [] =
     (if s f = DisabledState then Returns ([EchoDisable], f) else Blocks)"
| "loop serialize f ((r, env) # rest) =
     (if s f = DisabledState then Returns ([EchoDisable], f)
      else case r of
        DisableReceived \<Rightarrow> Returns ([EchoDisable], f)
      | EventSent \<Rightarrow>
          (case loop_dispatch serialize f (s f) env of
             Panics \<Rightarrow> Panics
           | Blocks \<Rightarrow> Blocks
           | Returns (acts, state, f') \<Rightarrow>
               (case transitionAndPanicOnErr f' state of
                  Panics \<Rightarrow> Panics
                | Blocks \<Rightarrow> Blocks
                | Returns f'' \<Rightarrow>
                    prepend (Emit (EventNeighborStateTransition (neighbor f) (s f)) # acts)
                      (loop serialize f'' rest))))"

section \<open>The specification's side\<close>

subsection \<open>Section 4.3: the rules of the OPEN validator\<close>

fun capsOf :: "optParam \<Rightarrow> capability list" where
  "capsOf (capabilityOptParam cs) = cs"
| "capsOf (unknownOptParam t d) = []"

definition allCaps :: "optParam list \<Rightarrow> capability list" where
  "allCaps ps = concat (map capsOf ps)"

fun isCapabilityOptParam :: "optParam \<Rightarrow> bool" where
  "isCapabilityOptParam (capabilityOptParam cs) = True"
| "isCapabilityOptParam (unknownOptParam t d) = False"

fun isFourOctetAs :: "capability \<Rightarrow> bool" where
  "isFourOctetAs (capFourOctetAs a) = True"
| "isFourOctetAs c = False"

fun badFourOctetAs :: "32 word \<Rightarrow> capability \<Rightarrow> bool" where
  "badFourOctetAs cfgASN (capFourOctetAs a) = (a \<noteq> cfgASN)"
| "badFourOctetAs cfgASN c = False"

fun isUnknown :: "capability \<Rightarrow> bool" where
  "isUnknown (capUnknown c d) = True"
| "isUnknown c = False"

definition bgpLsCap :: capability where
  "bgpLsCap = capMultiproto BgpLsAFI BgpLsSAFI"

text \<open>A parameter on which rule 6 or rule 7 fails: it is no capability parameter, or it
  holds a Four-Octet-AS capability with another ASN than the configured one.\<close>

fun offending :: "32 word \<Rightarrow> optParam \<Rightarrow> bool" where
  "offending cfgASN (capabilityOptParam cs) = list_ex (badFourOctetAs cfgASN) cs"
| "offending cfgASN (unknownOptParam t d) = True"

text \<open>The code, subcode and data of the NOTIFICATION an error carries.\<close>

definition notified :: "error option \<Rightarrow> (NotifErrCode \<times> NotifErrSubcode \<times> byte list) option" where
  "notified e = (case e of Some (errWithNotification m c sc d) \<Rightarrow> Some (c, sc, d) | _ \<Rightarrow> None)"

text \<open>
  Rules 1 to 9 of section 4.3 in the order the section lists them (rule 4 fails nothing):
  rule 6 looks at every optional parameter, then rule 7 at the capabilities. \<open>b\<close> is the
  serialized BGP-LS capability.
\<close>

definition firstFailingRule ::
  "byte list \<Rightarrow> 32 word \<Rightarrow> openMessage \<Rightarrow> (NotifErrCode \<times> NotifErrSubcode \<times> byte list) option" where
  "firstFailingRule b cfgASN msg =
    (if version msg \<noteq> 4 then
       Some (NotifErrCodeOpenMessage, NotifErrSubcodeUnsupportedVersionNumber, [0, 4])
     else if asn msg \<noteq> asTrans \<and> asn msg \<noteq> ucast cfgASN then
       Some (NotifErrCodeOpenMessage, NotifErrSubcodeBadPeerAS, [])
     else if openMessage.holdTime msg < 3 then
       Some (NotifErrCodeOpenMessage, NotifErrSubcodeUnacceptableHoldTime, [])
     else if bgpID msg = 0 then
       Some (NotifErrCodeOpenMessage, NotifErrSubcodeBadBgpID, [])
     else if list_ex (\<lambda>p. \<not> isCapabilityOptParam p) (optParams msg) then
       Some (NotifErrCodeOpenMessage, NotifErrSubcodeUnsupportedOptParam, [])
     else if list_ex (badFourOctetAs cfgASN) (allCaps (optParams msg)) then
       Some (NotifErrCodeOpenMessage, NotifErrSubcodeBadPeerAS, [])
     else if bgpLsCap \<notin> set (allCaps (optParams msg)) then
       Some (NotifErrCodeOpenMessage, NotifErrSubcodeUnsupportedCapability, b)
     else if asn msg = asTrans \<and> \<not> list_ex isFourOctetAs (allCaps (optParams msg)) then
       Some (NotifErrCodeOpenMessage, NotifErrSubcodeBadPeerAS, [])
     else None)"

text \<open>
  The same rules with rules 6 and 7 taken together, parameter by parameter from left to
  right, as the nested loops of \<open>validateOpen\<close> go: the first parameter that is not a
  capability parameter (rule 6) or holds a Four-Octet-AS capability with the wrong ASN
  (rule 7) decides.
\<close>

definition firstFailureOfScan ::
  "byte list \<Rightarrow> 32 word \<Rightarrow> openMessage \<Rightarrow> (NotifErrCode \<times> NotifErrSubcode \<times> byte list) option" where
  "firstFailureOfScan b cfgASN msg =
    (if version msg \<noteq> 4 then
       Some (NotifErrCodeOpenMessage, NotifErrSubcodeUnsupportedVersionNumber, [0, 4])
     else if asn msg \<noteq> asTrans \<and> asn msg \<noteq> ucast cfgASN then
       Some (NotifErrCodeOpenMessage, NotifErrSubcodeBadPeerAS, [])
     else if openMessage.holdTime msg < 3 then
       Some (NotifErrCodeOpenMessage, NotifErrSubcodeUnacceptableHoldTime, [])
     else if bgpID msg = 0 then
       Some (NotifErrCodeOpenMessage, NotifErrSubcodeBadBgpID, [])
     else
       (case find (offending cfgASN) (optParams msg) of
          Some (unknownOptParam t d) \<Rightarrow>
            Some (NotifErrCodeOpenMessage, NotifErrSubcodeUnsupportedOptParam, [])
        | Some (capabilityOptParam cs) \<Rightarrow>
            Some (NotifErrCodeOpenMessage, NotifErrSubcodeBadPeerAS, [])
        | None \<Rightarrow>
            if bgpLsCap \<notin> set (allCaps (optParams msg)) then
              Some (NotifErrCodeOpenMessage, NotifErrSubcodeUnsupportedCapability, b)
            else if asn msg = asTrans \<and> \<not> list_ex isFourOctetAs (allCaps (optParams msg)) then
              Some (NotifErrCodeOpenMessage, NotifErrSubcodeBadPeerAS, [])
            else None))"

definition passesRules123 :: "32 word \<Rightarrow> openMessage \<Rightarrow> bool" where
  "passesRules123 cfgASN msg =
     (version msg = 4 \<and> (asn msg = asTrans \<or> asn msg = ucast cfgASN)
      \<and> 3 \<le> openMessage.holdTime msg)"

text \<open>Rule 4: the context once the peer's hold time has been taken into account.\<close>

definition afterRule4 :: "standardFSM \<Rightarrow> openMessage \<Rightarrow> standardFSM" where
  "afterRule4 f msg =
     (if uint (openMessage.holdTime msg) * Second < holdTime f
      then f\<lparr> holdTime := uint (openMessage.holdTime msg) * Second,
              keepAliveTime := Truncate (quo (uint (openMessage.holdTime msg) * Second) 3) Second \<rparr>
      else f)"

text \<open>\<open>keepalive_period = floor(negotiated_hold_time / 3)\<close> seconds, as a duration.\<close>

definition keepalivePeriod :: "Duration \<Rightarrow> Duration" where
  "keepalivePeriod hold = (hold div (3 * Second)) * Second"

subsection \<open>Section 4.6: the table of allowed edges\<close>

definition allowedEdge :: "FSMState \<Rightarrow> FSMState \<Rightarrow> bool" where
  "allowedEdge cur nxt =
    (case nxt of
       DisabledState \<Rightarrow> True
     | IdleState \<Rightarrow> True
     | ConnectState \<Rightarrow> cur = IdleState \<or> cur = ConnectState \<or> cur = ActiveState
     | ActiveState \<Rightarrow> cur = ConnectState \<or> cur = ActiveState \<or> cur = OpenSentState
     | OpenSentState \<Rightarrow> cur = ConnectState \<or> cur = ActiveState
     | OpenConfirmState \<Rightarrow> cur = OpenSentState \<or> cur = OpenConfirmState
     | EstablishedState \<Rightarrow> cur = OpenConfirmState \<or> cur = EstablishedState)"

subsection \<open>Reading a run of the driver\<close>

text \<open>The hold_time fields of the OPEN messages written, in order.\<close>

fun openHoldTimes :: "action list \<Rightarrow> 16 word list" where
  "openHoldTimes [] = []"
| "openHoldTimes (WriteOpen m # acts) = openMessage.holdTime m # openHoldTimes acts"
| "openHoldTimes (a # acts) = openHoldTimes acts"

text \<open>Rounds of \<open>established\<close> that keep the session up: a KEEPALIVE sent on the timer, a
  KEEPALIVE received, an UPDATE received and handed to the application.\<close>

fun keepsSession :: "establishedSelect \<Rightarrow> bool" where
  "keepsSession (EstablishedKeepAliveTimer KeepAliveWritten r) = True"
| "keepsSession (EstablishedMsg KeepAlive r) = True"
| "keepsSession (EstablishedMsg (Update m) EventSent) = True"
| "keepsSession sel = False"

subsection \<open>Concrete inputs\<close>

text \<open>A neighbor configured with ASN 64512 and a hold time of 180 s, the OPEN a peer sends
  with a given hold time and identifier, and a serializer of capabilities (type, length,
  value).\<close>

definition exampleConfig :: NeighborConfig where
  "exampleConfig = \<lparr> Address = [127, 0, 0, 1], ASN = 64512, HoldTime = 180 * Second \<rparr>"

definition exampleFSM :: standardFSM where
  "exampleFSM = newFSM exampleConfig 65000"

definition peerOpen :: "16 word \<Rightarrow> 32 word \<Rightarrow> openMessage" where
  "peerOpen ht ident =
     \<lparr> version = 4, asn = 64512, openMessage.holdTime = ht, bgpID = ident,
       optParams = [capabilityOptParam [capFourOctetAs 64512, capMultiproto BgpLsAFI BgpLsSAFI]] \<rparr>"

fun exampleSerialize :: "capability \<Rightarrow> byte list option" where
  "exampleSerialize (capFourOctetAs a) =
     Some [65, 4, ucast (drop_bit 24 a), ucast (drop_bit 16 a), ucast (drop_bit 8 a), ucast a]"
| "exampleSerialize (capMultiproto af sf) = Some [1, 4, ucast (drop_bit 8 af), ucast af, 0, sf]"
| "exampleSerialize (capUnknown c d) = Some (c # of_nat (length d) # d)"

text \<open>An OPEN whose first parameter holds a Four-Octet-AS capability with the wrong ASN and
  whose second parameter is not a capability parameter.\<close>

definition mixedOpen :: openMessage where
  "mixedOpen =
     (peerOpen 90 1)\<lparr> optParams :=
        [capabilityOptParam [capFourOctetAs 7, capMultiproto BgpLsAFI BgpLsSAFI],
         unknownOptParam 1 [9]] \<rparr>"

text \<open>A neighbor whose configured ASN is AS_TRANS itself, and an OPEN from it that carries no
  Four-Octet-AS capability.\<close>

definition asTransConfig :: NeighborConfig where
  "asTransConfig = \<lparr> Address = [127, 0, 0, 1], ASN = 23456, HoldTime = 180 * Second \<rparr>"

definition asTransOpen :: openMessage where
  "asTransOpen = \<lparr> version = 4, asn = 23456, openMessage.holdTime = 90, bgpID = 1,
       optParams = [capabilityOptParam [capMultiproto BgpLsAFI BgpLsSAFI]] \<rparr>"

text \<open>The context of \<open>exampleFSM\<close> once a hold time of 30 s has been taken from a peer.\<close>

definition loweredFSM :: standardFSM where
  "loweredFSM = exampleFSM\<lparr> holdTime := 30 * Second, keepAliveTime := 10 * Second \<rparr>"

text \<open>
  A run of the driver over two sessions: connect, receive the OPEN \<open>first\<close>, reach
  Established, receive a NOTIFICATION (back to Idle), connect again, receive the OPEN
  \<open>second\<close>, and be shut down in OpenConfirm.
\<close>

definition twoSessions :: "openMessage \<Rightarrow> openMessage \<Rightarrow> (race \<times> handlerEnv) list" where
  "twoSessions first second =
     [(EventSent, EnvIdle),
      (EventSent, EnvConnect (ConnectConn WriteSucceeds)),
      (EventSent, EnvOpenSent (OpenSentMsg (Open first) EventSent KeepAliveWritten)),
      (EventSent, EnvOpenConfirm (OpenConfirmMsg KeepAlive EventSent)),
      (EventSent, EnvEstablished
         [EstablishedMsg (Notification \<lparr> Code = NotifErrCodeCease, Subcode = NotifErrSubcodeNone,
                                          Data = [] \<rparr>) EventSent]),
      (EventSent, EnvIdle),
      (EventSent, EnvConnect (ConnectConn WriteSucceeds)),
      (EventSent, EnvOpenSent (OpenSentMsg (Open second) EventSent KeepAliveWritten)),
      (EventSent, EnvOpenConfirm OpenConfirmDisable)]"

text \<open>The actions of a run that returned, and the context it left.\<close>

definition actionsOf :: "(action list \<times> 'a) outcome \<Rightarrow> action list" where
  "actionsOf r = (case r of Returns (acts, x) \<Rightarrow> acts | Panics \<Rightarrow> [] | Blocks \<Rightarrow> [])"

definition contextOf :: "(action list \<times> standardFSM) outcome \<Rightarrow> standardFSM option" where
  "contextOf r = (case r of Returns (acts, g) \<Rightarrow> Some g | Panics \<Rightarrow> None | Blocks \<Rightarrow> None)"

section \<open>Lemmas about the model\<close>

lemma validateOpen_caps_char:
  "validateOpen_caps cfgASN cs (a, b) =
     (if list_ex (badFourOctetAs cfgASN) cs then Inl (errBadPeerAS ''bad peer AS'')
      else Inr (a \<or> list_ex isFourOctetAs cs, b \<or> bgpLsCap \<in> set cs))"
  by (induction cfgASN cs "(a, b)" arbitrary: a b rule: validateOpen_caps.induct)
     (auto simp: bgpLsCap_def)

lemma validateOpen_optParams_char:
  "validateOpen_optParams cfgASN ps (a, b) =
     (case find (offending cfgASN) ps of
        Some (capabilityOptParam cs) \<Rightarrow> Inl (errBadPeerAS ''bad peer AS'')
      | Some (unknownOptParam t d) \<Rightarrow>
          Inl (errWithNotification ''non-capability optional parameter found''
                 NotifErrCodeOpenMessage NotifErrSubcodeUnsupportedOptParam [])
      | None \<Rightarrow> Inr (a \<or> list_ex isFourOctetAs (allCaps ps), b \<or> bgpLsCap \<in> set (allCaps ps)))"
  by (induction cfgASN ps "(a, b)" arbitrary: a b rule: validateOpen_optParams.induct)
     (auto simp: validateOpen_caps_char allCaps_def split: option.splits optParam.splits)

lemma validateOpen_caps_unknown:
  "validateOpen_caps cfgASN (filter (\<lambda>c. \<not> isUnknown c) cs) fl = validateOpen_caps cfgASN cs fl"
  by (induction cfgASN cs fl rule: validateOpen_caps.induct) auto

lemma Truncate_third:
  assumes d: "0 \<le> d"
  shows "Truncate (quo d 3) Second = keepalivePeriod d"
proof -
  from d have q: "quo d 3 = d div 3" by (simp add: quo_def sgn_if)
  have nn: "0 \<le> d div 3" using d by simp
  then have r: "rem (d div 3) Second = (d div 3) mod Second"
    by (simp add: rem_def quo_def sgn_if Second_def minus_mult_div_eq_mod)
  have "d div 3 - (d div 3) mod Second = ((d div 3) div Second) * Second"
    by (simp add: minus_mod_eq_div_mult)
  also have "(d div 3) div Second = d div (3 * Second)"
    by (simp add: Second_def div_mult2_eq)
  finally show ?thesis using r by (simp add: Truncate_def q Second_def keepalivePeriod_def)
qed

lemma PutUint16_4: "PutUint16 4 = [0, 4]"
  by (simp add: PutUint16_def)

lemma find_offending_None:
  "find (offending cfgASN) ps = None \<longleftrightarrow>
     list_all isCapabilityOptParam ps \<and> \<not> list_ex (badFourOctetAs cfgASN) (allCaps ps)"
proof (induction ps)
  case Nil
  then show ?case by (simp add: allCaps_def)
next
  case (Cons p ps)
  then show ?case by (cases p) (auto simp: allCaps_def list_ex_iff)
qed

lemma validateOpen_early:
  "\<not> passesRules123 (ASN (neighbor f)) msg \<Longrightarrow>
     \<exists>e. validateOpen ser f msg = Returns (Some e, f) \<and>
         notified (Some e) = firstFailureOfScan b (ASN (neighbor f)) msg"
  by (auto simp: passesRules123_def validateOpen_def firstFailureOfScan_def notified_def
        errBadPeerAS_def PutUint16_4 Let_def not_le)

lemma validateOpen_late:
  assumes "passesRules123 (ASN (neighbor f)) msg"
  shows "validateOpen ser f msg =
     (if bgpID msg = 0 then
        Returns (Some (errWithNotification ''bgp ID cannot be 0''
                   NotifErrCodeOpenMessage NotifErrSubcodeBadBgpID []), afterRule4 f msg)
      else
        (case find (offending (ASN (neighbor f))) (optParams msg) of
           Some (unknownOptParam t d) \<Rightarrow>
             Returns (Some (errWithNotification ''non-capability optional parameter found''
                        NotifErrCodeOpenMessage NotifErrSubcodeUnsupportedOptParam []), afterRule4 f msg)
         | Some (capabilityOptParam cs) \<Rightarrow>
             Returns (Some (errBadPeerAS ''bad peer AS''), afterRule4 f msg)
         | None \<Rightarrow>
             if bgpLsCap \<notin> set (allCaps (optParams msg)) then
               (case ser bgpLsCap of
                  None \<Rightarrow> Panics
                | Some b \<Rightarrow>
                    Returns (Some (errWithNotification ''bgp-ls capability not found''
                               NotifErrCodeOpenMessage NotifErrSubcodeUnsupportedCapability b),
                             afterRule4 f msg))
             else if asn msg = asTrans \<and> \<not> list_ex isFourOctetAs (allCaps (optParams msg)) then
               Returns (Some (errBadPeerAS
                  ''4-octet AS indicated in as field but not found in capabilities''), afterRule4 f msg)
             else Returns (None, afterRule4 f msg)))"
  using assms
  by (auto simp: passesRules123_def validateOpen_def afterRule4_def Let_def not_less
        validateOpen_optParams_char bgpLsCap_def
      split: option.splits optParam.splits)

lemma validateOpen_context:
  assumes "validateOpen ser f msg = Returns (e, f')"
  shows "f' = (if passesRules123 (ASN (neighbor f)) msg then afterRule4 f msg else f)"
proof (cases "passesRules123 (ASN (neighbor f)) msg")
  case True
  from assms show ?thesis unfolding validateOpen_late [OF True]
    by (auto simp: True split: if_splits option.splits optParam.splits)
next
  case False
  from validateOpen_early [OF False, of ser] assms show ?thesis by (auto simp: False)
qed

lemma validateOpen_accept:
  assumes "validateOpen ser f msg = Returns (None, f')"
  shows "passesRules123 (ASN (neighbor f)) msg"
proof (rule ccontr)
  assume n: "\<not> passesRules123 (ASN (neighbor f)) msg"
  from validateOpen_early [OF n, of ser] assms show False by auto
qed

lemma badFourOctetAs_isFourOctetAs: "badFourOctetAs cfgASN c \<Longrightarrow> isFourOctetAs c"
  by (cases c) simp_all

lemma validateOpen_optParams_cong:
  assumes "validateOpen_optParams (ASN (neighbor f)) ps' (False, False)
             = validateOpen_optParams (ASN (neighbor f)) ps (False, False)"
  shows "validateOpen ser f (msg\<lparr> optParams := ps' \<rparr>) = validateOpen ser f (msg\<lparr> optParams := ps \<rparr>)"
  using assms by (auto simp: validateOpen_def Let_def split: sum.splits option.splits)

lemma validateOpen_refines:
  assumes b: "ser bgpLsCap = Some b"
  shows "\<exists>e f'. validateOpen ser f msg = Returns (e, f') \<and>
           notified e = firstFailureOfScan b (ASN (neighbor f)) msg"
proof (cases "passesRules123 (ASN (neighbor f)) msg")
  case False
  from validateOpen_early [OF False, of ser b] show ?thesis by blast
next
  case True
  then have p: "version msg = 4" "\<not> (asn msg \<noteq> asTrans \<and> asn msg \<noteq> ucast (ASN (neighbor f)))"
    "\<not> openMessage.holdTime msg < 3"
    by (auto simp: passesRules123_def)
  show ?thesis
  proof (cases "bgpID msg = 0")
    case True
    then show ?thesis unfolding validateOpen_late [OF \<open>passesRules123 (ASN (neighbor f)) msg\<close>]
      by (simp add: firstFailureOfScan_def p notified_def)
  next
    case False
    show ?thesis
    proof (cases "find (offending (ASN (neighbor f))) (optParams msg)")
      case None
      then show ?thesis unfolding validateOpen_late [OF \<open>passesRules123 (ASN (neighbor f)) msg\<close>]
        by (simp add: firstFailureOfScan_def p b False notified_def errBadPeerAS_def)
    next
      case (Some q)
      then show ?thesis unfolding validateOpen_late [OF \<open>passesRules123 (ASN (neighbor f)) msg\<close>]
        by (cases q) (simp_all add: firstFailureOfScan_def p False notified_def errBadPeerAS_def)
    qed
  qed
qed

lemma find_Some_set: "find P xs = Some x \<Longrightarrow> x \<in> set xs \<and> P x"
  by (induction xs) (auto split: if_splits)

lemma find_offending_capability:
  assumes "find (offending cfgASN) ps = Some (capabilityOptParam cs)"
  shows "list_ex (badFourOctetAs cfgASN) (allCaps ps)"
proof -
  from assms have "capabilityOptParam cs \<in> set ps" and "offending cfgASN (capabilityOptParam cs)"
    by (auto dest: find_Some_set)
  then show ?thesis
    by (auto simp: allCaps_def list_ex_iff intro!: bexI [of _ "capabilityOptParam cs"])
qed

lemma find_offending_unknown:
  assumes "find (offending cfgASN) ps = Some (unknownOptParam t d)"
  shows "list_ex (\<lambda>p. \<not> isCapabilityOptParam p) ps"
proof -
  from assms have "unknownOptParam t d \<in> set ps"
    by (auto dest: find_Some_set)
  then show ?thesis
    by (auto simp: list_ex_iff intro!: bexI [of _ "unknownOptParam t d"])
qed

lemma firstFailureOfScan_listed:
  assumes "list_all isCapabilityOptParam (optParams msg)
           \<or> \<not> list_ex (badFourOctetAs cfgASN) (allCaps (optParams msg))"
  shows "firstFailureOfScan b cfgASN msg = firstFailingRule b cfgASN msg"
proof (cases "find (offending cfgASN) (optParams msg)")
  case None
  then have "list_all isCapabilityOptParam (optParams msg)"
    and "\<not> list_ex (badFourOctetAs cfgASN) (allCaps (optParams msg))"
    by (simp_all add: find_offending_None)
  then show ?thesis
    by (simp add: firstFailureOfScan_def firstFailingRule_def None list_all_iff list_ex_iff)
next
  case (Some q)
  show ?thesis
  proof (cases q)
    case (capabilityOptParam cs)
    with Some have bad: "list_ex (badFourOctetAs cfgASN) (allCaps (optParams msg))"
      by (simp add: find_offending_capability)
    with assms have "list_all isCapabilityOptParam (optParams msg)" by simp
    with bad show ?thesis
      by (simp add: firstFailureOfScan_def firstFailingRule_def Some capabilityOptParam
            list_all_iff list_ex_iff)
  next
    case (unknownOptParam t d)
    with Some have "list_ex (\<lambda>p. \<not> isCapabilityOptParam p) (optParams msg)"
      by (simp add: find_offending_unknown)
    then show ?thesis
      by (simp add: firstFailureOfScan_def firstFailingRule_def Some unknownOptParam)
  qed
qed

lemmas example_defs =
  exampleFSM_def newFSM_def exampleConfig_def peerOpen_def asTrans_def Second_def
  Truncate_def quo_def rem_def bgpLsCap_def afterRule4_def passesRules123_def allCaps_def

lemma newFSM_keepalive:
  "0 \<le> HoldTime config \<Longrightarrow> keepAliveTime (newFSM config l) = keepalivePeriod (HoldTime config)"
  by (simp add: newFSM_def Truncate_third)

lemma afterRule4_holdTime:
  "holdTime (afterRule4 f msg) = min (holdTime f) (uint (openMessage.holdTime msg) * Second)"
  by (simp add: afterRule4_def min_def)

lemma afterRule4_keepalive:
  assumes "0 \<le> holdTime f" and "keepAliveTime f = keepalivePeriod (holdTime f)"
  shows "keepAliveTime (afterRule4 f msg) = keepalivePeriod (holdTime (afterRule4 f msg))"
proof -
  have "0 \<le> uint (openMessage.holdTime msg) * Second" by (simp add: Second_def)
  then show ?thesis using assms by (simp add: afterRule4_def Truncate_third)
qed

lemma prepend_prepend: "prepend a (prepend b r) = prepend (a @ b) r"
  by (cases r) (auto simp: prepend_def)

lemma prepend_Returns: "prepend a (Returns (b, x)) = Returns (a @ b, x)"
  by (simp add: prepend_def)

lemma established_keepsSession:
  "list_all keepsSession pre \<Longrightarrow>
     \<exists>acts. \<forall>rest. established f (pre @ rest) = prepend acts (established f rest)"
proof (induction pre)
  case Nil
  have "\<forall>rest. established f ([] @ rest) = prepend [] (established f rest)"
    by (simp add: prepend_def split: outcome.splits)
  then show ?case by blast
next
  case (Cons x xs)
  then obtain acts where a: "\<And>rest. established f (xs @ rest) = prepend acts (established f rest)"
    by auto
  from Cons.prems have k: "keepsSession x" by simp
  then show ?case
  proof (cases x rule: keepsSession.cases)
    case (1 r)
    then have "\<forall>rest. established f ((x # xs) @ rest)
        = prepend ([WriteKeepAlive, ResetKeepAliveTimer (keepAliveTime f)] @ acts) (established f rest)"
      by (simp add: a prepend_prepend)
    then show ?thesis by blast
  next
    case (2 r)
    then have "\<forall>rest. established f ((x # xs) @ rest)
        = prepend ([DrainHoldTimer, ResetHoldTimer (holdTime f)] @ acts) (established f rest)"
      by (simp add: a prepend_prepend)
    then show ?thesis by blast
  next
    case (3 m)
    then have "\<forall>rest. established f ((x # xs) @ rest)
        = prepend ([DrainHoldTimer, ResetHoldTimer (holdTime f),
                    Emit (EventNeighborUpdateReceived (neighbor f) m)] @ acts) (established f rest)"
      by (simp add: a prepend_prepend)
    then show ?thesis by blast
  qed (use k in simp_all)
qed

lemma connect_sendOpen_WriteOpen:
  assumes "connect_sendOpen f step = Returns (acts, st)" and "WriteOpen m \<in> set acts"
  shows "m = newOpenMessage (localASN f) (holdTime f) (Address (neighbor f))"
  using assms
  by (cases step) (auto simp: connect_sendOpen_def Let_def split: race.splits)

lemma loop_exit_state:
  "loop ser f envs = Returns (acts, g) \<Longrightarrow>
     s g = DisabledState \<or> list_ex (\<lambda>e. fst e = DisableReceived) envs"
proof (induction ser f envs arbitrary: acts g rule: loop.induct)
  case (1 serialize f)
  then show ?case by (auto split: if_splits)
next
  case (2 serialize f r env rest)
  show ?case
  proof (cases "s f = DisabledState")
    case True
    with 2 show ?thesis by auto
  next
    case False
    show ?thesis
    proof (cases r)
      case DisableReceived
      then show ?thesis by simp
    next
      case EventSent
      with 2 False show ?thesis
        by (auto simp: prepend_def split: outcome.splits prod.splits)
    qed
  qed
qed

section \<open>The claims\<close>

subsection \<open>C2: the validator returns at the first failing rule\<close>

text \<open>
  Claim C2 says that \<open>validateOpen\<close> applies the rules of section 4.3 in order and returns
  at the first failing rule with that rule's code, subcode and data. The section lists
  rule 6 (every optional parameter is a capability parameter) before rule 7 (the
  capabilities); the code checks each parameter and then its capabilities before it looks
  at the next parameter. What holds:
  \<^item> an OPEN whose version is not 4 gets OpenMessageError / UnsupportedVersionNumber with
    the data \<open>[0, 4]\<close> (the big-endian u16 4), whatever its other fields are and whatever
    the serializer does, and the context is untouched;
  \<^item> when the BGP-LS capability serializes to \<open>b\<close>, \<open>validateOpen\<close> returns, and the
    notification of its result is that of the first failure with rules 6 and 7 applied
    together parameter by parameter (\<open>firstFailureOfScan\<close>; none on success);
  \<^item> that is the first failing rule in the listed order (\<open>firstFailingRule\<close>) whenever
    every optional parameter is a capability parameter or no Four-Octet-AS capability
    carries another ASN than the configured one;
  \<^item> an OPEN that passes rules 1 to 7 (version, AS field, hold time, identifier, only
    capability parameters, no Four-Octet-AS capability with another ASN) and holds no
    Multiprotocol(BGP-LS, BGP-LS) capability gets OpenMessageError / UnsupportedCapability
    with the data \<open>b\<close>.
\<close>

theorem validateOpen_first_failing_rule:
  "(version msg \<noteq> 4 \<longrightarrow>
      validateOpen ser f msg =
        Returns (Some (errWithNotification ''unsupported version number''
                   NotifErrCodeOpenMessage NotifErrSubcodeUnsupportedVersionNumber [0, 4]), f))
   \<and> (ser bgpLsCap = Some b \<longrightarrow>
        (\<exists>e f'. validateOpen ser f msg = Returns (e, f') \<and>
                notified e = firstFailureOfScan b (ASN (neighbor f)) msg))
   \<and> (ser bgpLsCap = Some b
        \<and> (list_all isCapabilityOptParam (optParams msg)
            \<or> \<not> list_ex (badFourOctetAs (ASN (neighbor f))) (allCaps (optParams msg))) \<longrightarrow>
        (\<exists>e f'. validateOpen ser f msg = Returns (e, f') \<and>
                notified e = firstFailingRule b (ASN (neighbor f)) msg))
   \<and> (ser bgpLsCap = Some b \<and> passesRules123 (ASN (neighbor f)) msg \<and> bgpID msg \<noteq> 0
        \<and> list_all isCapabilityOptParam (optParams msg)
        \<and> \<not> list_ex (badFourOctetAs (ASN (neighbor f))) (allCaps (optParams msg))
        \<and> bgpLsCap \<notin> set (allCaps (optParams msg)) \<longrightarrow>
        validateOpen ser f msg =
          Returns (Some (errWithNotification ''bgp-ls capability not found''
                     NotifErrCodeOpenMessage NotifErrSubcodeUnsupportedCapability b),
                   afterRule4 f msg))"
proof (intro conjI impI)
  assume "version msg \<noteq> 4"
  then show "validateOpen ser f msg =
        Returns (Some (errWithNotification ''unsupported version number''
                   NotifErrCodeOpenMessage NotifErrSubcodeUnsupportedVersionNumber [0, 4]), f)"
    by (simp add: validateOpen_def PutUint16_4)
next
  assume "ser bgpLsCap = Some b"
  then show "\<exists>e f'. validateOpen ser f msg = Returns (e, f') \<and>
                notified e = firstFailureOfScan b (ASN (neighbor f)) msg"
    by (rule validateOpen_refines)
next
  assume h: "ser bgpLsCap = Some b
        \<and> (list_all isCapabilityOptParam (optParams msg)
            \<or> \<not> list_ex (badFourOctetAs (ASN (neighbor f))) (allCaps (optParams msg)))"
  then have "firstFailureOfScan b (ASN (neighbor f)) msg = firstFailingRule b (ASN (neighbor f)) msg"
    by (intro firstFailureOfScan_listed) simp
  moreover from h have "\<exists>e f'. validateOpen ser f msg = Returns (e, f') \<and>
                notified e = firstFailureOfScan b (ASN (neighbor f)) msg"
    by (intro validateOpen_refines) simp
  ultimately show "\<exists>e f'. validateOpen ser f msg = Returns (e, f') \<and>
                notified e = firstFailingRule b (ASN (neighbor f)) msg"
    by simp
next
  assume h: "ser bgpLsCap = Some b \<and> passesRules123 (ASN (neighbor f)) msg \<and> bgpID msg \<noteq> 0
        \<and> list_all isCapabilityOptParam (optParams msg)
        \<and> \<not> list_ex (badFourOctetAs (ASN (neighbor f))) (allCaps (optParams msg))
        \<and> bgpLsCap \<notin> set (allCaps (optParams msg))"
  then have p: "passesRules123 (ASN (neighbor f)) msg" by simp
  from h have n: "find (offending (ASN (neighbor f))) (optParams msg) = None"
    by (simp add: find_offending_None)
  from h show "validateOpen ser f msg =
          Returns (Some (errWithNotification ''bgp-ls capability not found''
                     NotifErrCodeOpenMessage NotifErrSubcodeUnsupportedCapability b),
                   afterRule4 f msg)"
    unfolding validateOpen_late [OF p] by (simp add: n)
qed

theorem validateOpen_first_failing_rule_witness:
  "(version ((peerOpen 90 1)\<lparr>version := 5\<rparr>) \<noteq> 4 \<and>
    validateOpen exampleSerialize exampleFSM ((peerOpen 90 1)\<lparr>version := 5\<rparr>) =
      Returns (Some (errWithNotification ''unsupported version number''
                 NotifErrCodeOpenMessage NotifErrSubcodeUnsupportedVersionNumber [0, 4]), exampleFSM))
   \<and> (exampleSerialize bgpLsCap = Some [1, 4, 64, 4, 0, 71] \<and>
      (\<exists>e f'. validateOpen exampleSerialize exampleFSM mixedOpen = Returns (e, f') \<and>
         notified e = Some (NotifErrCodeOpenMessage, NotifErrSubcodeBadPeerAS, [])))
   \<and> (list_all isCapabilityOptParam (optParams (peerOpen 90 0)) \<and>
      firstFailingRule [1, 4, 64, 4, 0, 71] (ASN (neighbor exampleFSM)) (peerOpen 90 0) =
        Some (NotifErrCodeOpenMessage, NotifErrSubcodeBadBgpID, []) \<and>
      (\<exists>e f'. validateOpen exampleSerialize exampleFSM (peerOpen 90 0) = Returns (e, f') \<and>
         notified e = Some (NotifErrCodeOpenMessage, NotifErrSubcodeBadBgpID, [])))
   \<and> (passesRules123 (ASN (neighbor exampleFSM)) ((peerOpen 90 1)\<lparr>optParams := [capabilityOptParam []]\<rparr>) \<and>
      validateOpen exampleSerialize exampleFSM ((peerOpen 90 1)\<lparr>optParams := [capabilityOptParam []]\<rparr>) =
        Returns (Some (errWithNotification ''bgp-ls capability not found''
                   NotifErrCodeOpenMessage NotifErrSubcodeUnsupportedCapability [1, 4, 64, 4, 0, 71]),
                 exampleFSM\<lparr> holdTime := 90 * Second, keepAliveTime := 30 * Second \<rparr>))"
proof -
  have b: "exampleSerialize bgpLsCap = Some [1, 4, 64, 4, 0, 71]"
    by (simp add: bgpLsCap_def BgpLsAFI_def BgpLsSAFI_def)
  have r: "firstFailureOfScan [1, 4, 64, 4, 0, 71] (ASN (neighbor exampleFSM)) mixedOpen
             = Some (NotifErrCodeOpenMessage, NotifErrSubcodeBadPeerAS, [])"
    by (simp add: firstFailureOfScan_def mixedOpen_def example_defs)
  have c: "list_all isCapabilityOptParam (optParams (peerOpen 90 0))"
    by (simp add: peerOpen_def)
  have l: "firstFailingRule [1, 4, 64, 4, 0, 71] (ASN (neighbor exampleFSM)) (peerOpen 90 0)
             = Some (NotifErrCodeOpenMessage, NotifErrSubcodeBadBgpID, [])"
    by (simp add: firstFailingRule_def example_defs)
  have p: "passesRules123 (ASN (neighbor exampleFSM)) ((peerOpen 90 1)\<lparr>optParams := [capabilityOptParam []]\<rparr>)"
    by (simp add: example_defs)
  have a: "afterRule4 exampleFSM ((peerOpen 90 1)\<lparr>optParams := [capabilityOptParam []]\<rparr>)
             = exampleFSM\<lparr> holdTime := 90 * Second, keepAliveTime := 30 * Second \<rparr>"
    by (simp add: example_defs)
  note w = validateOpen_first_failing_rule
  from w [where msg = "(peerOpen 90 1)\<lparr>version := 5\<rparr>" and ser = exampleSerialize and f = exampleFSM]
  have 1: "validateOpen exampleSerialize exampleFSM ((peerOpen 90 1)\<lparr>version := 5\<rparr>) =
      Returns (Some (errWithNotification ''unsupported version number''
                 NotifErrCodeOpenMessage NotifErrSubcodeUnsupportedVersionNumber [0, 4]), exampleFSM)"
    by (simp add: peerOpen_def)
  from w [where msg = mixedOpen and ser = exampleSerialize and b = "[1, 4, 64, 4, 0, 71]"
            and f = exampleFSM] b r
  have 2: "\<exists>e f'. validateOpen exampleSerialize exampleFSM mixedOpen = Returns (e, f') \<and>
         notified e = Some (NotifErrCodeOpenMessage, NotifErrSubcodeBadPeerAS, [])"
    by simp
  from w [where msg = "peerOpen 90 0" and ser = exampleSerialize and b = "[1, 4, 64, 4, 0, 71]"
            and f = exampleFSM] b c l
  have 3: "\<exists>e f'. validateOpen exampleSerialize exampleFSM (peerOpen 90 0) = Returns (e, f') \<and>
         notified e = Some (NotifErrCodeOpenMessage, NotifErrSubcodeBadBgpID, [])"
    by simp
  from w [where msg = "(peerOpen 90 1)\<lparr>optParams := [capabilityOptParam []]\<rparr>"
            and ser = exampleSerialize and b = "[1, 4, 64, 4, 0, 71]" and f = exampleFSM] b p a
  have 4: "validateOpen exampleSerialize exampleFSM ((peerOpen 90 1)\<lparr>optParams := [capabilityOptParam []]\<rparr>) =
        Returns (Some (errWithNotification ''bgp-ls capability not found''
                   NotifErrCodeOpenMessage NotifErrSubcodeUnsupportedCapability [1, 4, 64, 4, 0, 71]),
                 exampleFSM\<lparr> holdTime := 90 * Second, keepAliveTime := 30 * Second \<rparr>)"
    by (simp add: peerOpen_def allCaps_def bgpLsCap_def)
  from 1 2 3 4 b c l p show ?thesis by (simp add: peerOpen_def)
qed

text \<open>The claim as stated fails where a capability parameter with a wrong Four-Octet-AS
  capability stands before a parameter that is no capability parameter: rule 6, listed
  first, names UnsupportedOptParam, and \<open>validateOpen\<close> returns BadPeerAS.\<close>

theorem validateOpen_first_failing_rule_counterexample:
  "validateOpen exampleSerialize exampleFSM mixedOpen =
     Returns (Some (errWithNotification ''bad peer AS''
                NotifErrCodeOpenMessage NotifErrSubcodeBadPeerAS []),
              exampleFSM\<lparr> holdTime := 90 * Second, keepAliveTime := 30 * Second \<rparr>)
   \<and> firstFailingRule [1, 4, 64, 4, 0, 71] (ASN (neighbor exampleFSM)) mixedOpen =
       Some (NotifErrCodeOpenMessage, NotifErrSubcodeUnsupportedOptParam, [])
   \<and> notified (Some (errWithNotification ''bad peer AS''
                NotifErrCodeOpenMessage NotifErrSubcodeBadPeerAS []))
       \<noteq> firstFailingRule [1, 4, 64, 4, 0, 71] (ASN (neighbor exampleFSM)) mixedOpen"
  by (simp add: validateOpen_def firstFailingRule_def notified_def mixedOpen_def errBadPeerAS_def
        example_defs)

subsection \<open>C3: a well-formed OPEN is accepted\<close>

text \<open>
  Claim C3. An OPEN with version 4, an AS field equal to the configured ASN as a u16 or to
  AS_TRANS, a hold time of at least 3, a non-zero identifier and a single capability
  parameter that holds Four-Octet-AS(configured ASN) and Multiprotocol(BGP-LS, BGP-LS), and
  no Four-Octet-AS capability with another ASN, is accepted. And two capability lists that
  differ only in unknown capabilities, wherever these stand, get the same result from
  \<open>validateOpen\<close>: the same verdict and the same context.
\<close>

theorem validateOpen_accepts:
  "(version msg = 4
      \<and> (asn msg = ucast (ASN (neighbor f)) \<or> asn msg = asTrans)
      \<and> 3 \<le> openMessage.holdTime msg
      \<and> bgpID msg \<noteq> 0
      \<and> optParams msg = [capabilityOptParam caps]
      \<and> capFourOctetAs (ASN (neighbor f)) \<in> set caps
      \<and> bgpLsCap \<in> set caps
      \<and> \<not> list_ex (badFourOctetAs (ASN (neighbor f))) caps
    \<longrightarrow> validateOpen ser f msg = Returns (None, afterRule4 f msg))
   \<and> (filter (\<lambda>c. \<not> isUnknown c) caps' = filter (\<lambda>c. \<not> isUnknown c) caps
    \<longrightarrow> validateOpen ser f (msg\<lparr> optParams := [capabilityOptParam caps'] \<rparr>)
          = validateOpen ser f (msg\<lparr> optParams := [capabilityOptParam caps] \<rparr>))"
proof (intro conjI impI)
  assume h: "version msg = 4
      \<and> (asn msg = ucast (ASN (neighbor f)) \<or> asn msg = asTrans)
      \<and> 3 \<le> openMessage.holdTime msg
      \<and> bgpID msg \<noteq> 0
      \<and> optParams msg = [capabilityOptParam caps]
      \<and> capFourOctetAs (ASN (neighbor f)) \<in> set caps
      \<and> bgpLsCap \<in> set caps
      \<and> \<not> list_ex (badFourOctetAs (ASN (neighbor f))) caps"
  then have p: "passesRules123 (ASN (neighbor f)) msg"
    by (auto simp: passesRules123_def)
  from h have four: "list_ex isFourOctetAs caps"
    by (auto simp: list_ex_iff intro!: bexI [of _ "capFourOctetAs (ASN (neighbor f))"])
  from h have n: "find (offending (ASN (neighbor f))) (optParams msg) = None"
    by (simp add: find_offending_None allCaps_def)
  from h four show "validateOpen ser f msg = Returns (None, afterRule4 f msg)"
    unfolding validateOpen_late [OF p] by (simp add: n allCaps_def)
next
  assume e: "filter (\<lambda>c. \<not> isUnknown c) caps' = filter (\<lambda>c. \<not> isUnknown c) caps"
  have "validateOpen_caps (ASN (neighbor f)) caps' (False, False)
          = validateOpen_caps (ASN (neighbor f)) (filter (\<lambda>c. \<not> isUnknown c) caps') (False, False)"
    by (simp add: validateOpen_caps_unknown)
  also have "\<dots> = validateOpen_caps (ASN (neighbor f)) caps (False, False)"
    by (simp add: e validateOpen_caps_unknown)
  finally show "validateOpen ser f (msg\<lparr> optParams := [capabilityOptParam caps'] \<rparr>)
          = validateOpen ser f (msg\<lparr> optParams := [capabilityOptParam caps] \<rparr>)"
    by (intro validateOpen_optParams_cong) simp
qed

theorem validateOpen_accepts_witness:
  "validateOpen exampleSerialize exampleFSM (peerOpen 90 1)
     = Returns (None, exampleFSM\<lparr> holdTime := 90 * Second, keepAliveTime := 30 * Second \<rparr>)
   \<and> validateOpen exampleSerialize exampleFSM
        ((peerOpen 90 1)\<lparr> optParams := [capabilityOptParam
           [capUnknown 2 [], capFourOctetAs 64512, capUnknown 70 [1], capMultiproto BgpLsAFI BgpLsSAFI]] \<rparr>)
     = validateOpen exampleSerialize exampleFSM
        ((peerOpen 90 1)\<lparr> optParams := [capabilityOptParam
           [capFourOctetAs 64512, capMultiproto BgpLsAFI BgpLsSAFI]] \<rparr>)"
proof -
  have a: "afterRule4 exampleFSM (peerOpen 90 1)
             = exampleFSM\<lparr> holdTime := 90 * Second, keepAliveTime := 30 * Second \<rparr>"
    by (simp add: example_defs)
  from validateOpen_accepts [where msg = "peerOpen 90 1" and f = exampleFSM
      and caps = "[capFourOctetAs 64512, capMultiproto BgpLsAFI BgpLsSAFI]" and ser = exampleSerialize
      and caps' = "[capUnknown 2 [], capFourOctetAs 64512, capUnknown 70 [1], capMultiproto BgpLsAFI BgpLsSAFI]"]
  show ?thesis
    by (simp add: a) (simp add: example_defs)
qed

subsection \<open>C9: an OPEN without optional parameters\<close>

text \<open>
  Claim C9. An OPEN whose list of optional parameters is empty and which passes rules 1 to 5
  (version 4, AS field equal to the configured ASN or to AS_TRANS, hold time at least 3,
  non-zero identifier) is rejected with OpenMessageError / UnsupportedCapability and the
  serialized BGP-LS capability as data, not with UnsupportedOptParam: the scan of the
  parameters has nothing to reject, and the check for the BGP-LS capability fires.
\<close>

theorem validateOpen_empty_optParams:
  assumes "ser bgpLsCap = Some b"
    and "version msg = 4"
    and "asn msg = asTrans \<or> asn msg = ucast (ASN (neighbor f))"
    and "3 \<le> openMessage.holdTime msg"
    and "bgpID msg \<noteq> 0"
    and "optParams msg = []"
  shows "validateOpen ser f msg =
           Returns (Some (errWithNotification ''bgp-ls capability not found''
                      NotifErrCodeOpenMessage NotifErrSubcodeUnsupportedCapability b),
                    afterRule4 f msg)"
proof -
  from assms have p: "passesRules123 (ASN (neighbor f)) msg"
    by (simp add: passesRules123_def)
  from assms show ?thesis unfolding validateOpen_late [OF p]
    by (simp add: allCaps_def)
qed

theorem validateOpen_empty_optParams_witness:
  "validateOpen exampleSerialize exampleFSM ((peerOpen 90 1)\<lparr> optParams := [] \<rparr>) =
     Returns (Some (errWithNotification ''bgp-ls capability not found''
                NotifErrCodeOpenMessage NotifErrSubcodeUnsupportedCapability [1, 4, 64, 4, 0, 71]),
              exampleFSM\<lparr> holdTime := 90 * Second, keepAliveTime := 30 * Second \<rparr>)"
proof -
  have b: "exampleSerialize bgpLsCap = Some [1, 4, 64, 4, 0, 71]"
    by (simp add: bgpLsCap_def BgpLsAFI_def BgpLsSAFI_def)
  have a: "afterRule4 exampleFSM ((peerOpen 90 1)\<lparr> optParams := [] \<rparr>)
             = exampleFSM\<lparr> holdTime := 90 * Second, keepAliveTime := 30 * Second \<rparr>"
    by (simp add: example_defs)
  from validateOpen_empty_optParams [where ser = exampleSerialize and b = "[1, 4, 64, 4, 0, 71]"
      and msg = "(peerOpen 90 1)\<lparr> optParams := [] \<rparr>" and f = exampleFSM, OF b]
  show ?thesis by (simp add: a) (simp add: example_defs)
qed

subsection \<open>C10: AS_TRANS as the configured ASN\<close>

text \<open>
  Claim C10. When the configured peer ASN is 23456 (AS_TRANS) and the OPEN carries 23456 in
  its AS field, with no Four-Octet-AS capability, with the BGP-LS capability present and
  every other rule satisfied, \<open>validateOpen\<close> rejects it with OpenMessageError / BadPeerAS
  (rule 9), although the AS field equals the configured ASN: the test for the sentinel
  comes before the comparison.
\<close>

theorem validateOpen_asTrans_precedence:
  assumes "ASN (neighbor f) = 23456"
    and "asn msg = 23456"
    and "version msg = 4"
    and "3 \<le> openMessage.holdTime msg"
    and "bgpID msg \<noteq> 0"
    and "list_all isCapabilityOptParam (optParams msg)"
    and "\<not> list_ex isFourOctetAs (allCaps (optParams msg))"
    and "bgpLsCap \<in> set (allCaps (optParams msg))"
  shows "asn msg = ucast (ASN (neighbor f)) \<and>
         validateOpen ser f msg =
           Returns (Some (errWithNotification
                      ''4-octet AS indicated in as field but not found in capabilities''
                      NotifErrCodeOpenMessage NotifErrSubcodeBadPeerAS []),
                    afterRule4 f msg)"
proof -
  from assms have p: "passesRules123 (ASN (neighbor f)) msg"
    by (simp add: passesRules123_def asTrans_def)
  have "\<not> list_ex (badFourOctetAs (ASN (neighbor f))) (allCaps (optParams msg))"
  proof
    assume "list_ex (badFourOctetAs (ASN (neighbor f))) (allCaps (optParams msg))"
    then obtain c where c: "c \<in> set (allCaps (optParams msg))" "badFourOctetAs (ASN (neighbor f)) c"
      by (auto simp: list_ex_iff)
    with assms(7) show False by (auto simp: list_ex_iff dest: badFourOctetAs_isFourOctetAs)
  qed
  with assms have n: "find (offending (ASN (neighbor f))) (optParams msg) = None"
    by (simp add: find_offending_None)
  from assms have "asn msg = ucast (ASN (neighbor f))" by simp
  moreover from assms have "validateOpen ser f msg =
           Returns (Some (errWithNotification
                      ''4-octet AS indicated in as field but not found in capabilities''
                      NotifErrCodeOpenMessage NotifErrSubcodeBadPeerAS []),
                    afterRule4 f msg)"
    unfolding validateOpen_late [OF p] n by (simp add: asTrans_def errBadPeerAS_def)
  ultimately show ?thesis by simp
qed

theorem validateOpen_asTrans_precedence_witness:
  "validateOpen exampleSerialize (newFSM asTransConfig 65000) asTransOpen =
     Returns (Some (errWithNotification
                ''4-octet AS indicated in as field but not found in capabilities''
                NotifErrCodeOpenMessage NotifErrSubcodeBadPeerAS []),
              (newFSM asTransConfig 65000)\<lparr> holdTime := 90 * Second, keepAliveTime := 30 * Second \<rparr>)"
proof -
  have a: "afterRule4 (newFSM asTransConfig 65000) asTransOpen
             = (newFSM asTransConfig 65000)\<lparr> holdTime := 90 * Second, keepAliveTime := 30 * Second \<rparr>"
    by (simp add: example_defs asTransConfig_def asTransOpen_def)
  from validateOpen_asTrans_precedence [where f = "newFSM asTransConfig 65000" and msg = asTransOpen
      and ser = exampleSerialize]
  show ?thesis
    by (simp add: a) (simp add: example_defs asTransConfig_def asTransOpen_def)
qed

subsection \<open>C4: the hold time after an accepted OPEN\<close>

text \<open>
  Claim C4 says that after every accepted OPEN the negotiated hold time is the minimum of
  the configured hold time and the peer's, and the keepalive period a third of it, rounded
  down to whole seconds. \<open>validateOpen\<close> compares the peer's hold time with the hold time the
  FSM holds at that moment, which an earlier OPEN may have lowered and which nothing raises
  again. What holds: after an accepted OPEN the hold time is the minimum of the hold time
  before the call and the peer's; that is the minimum of the configured and the peer's when
  the FSM still holds the configured one (as after \<open>newFSM\<close>); and the keepalive period is
  \<open>floor(hold / 3)\<close> whole seconds if it was so before the call (as after \<open>newFSM\<close> with a
  configured hold time that is not negative, lemma \<open>newFSM_keepalive\<close>).
\<close>

theorem validateOpen_negotiates:
  assumes "validateOpen ser f msg = Returns (None, f')"
  shows "holdTime f' = min (holdTime f) (uint (openMessage.holdTime msg) * Second)
     \<and> (holdTime f = HoldTime (neighbor f) \<longrightarrow>
          holdTime f' = min (HoldTime (neighbor f)) (uint (openMessage.holdTime msg) * Second))
     \<and> (0 \<le> holdTime f \<and> keepAliveTime f = keepalivePeriod (holdTime f) \<longrightarrow>
          keepAliveTime f' = keepalivePeriod (holdTime f'))"
proof -
  from assms have p: "passesRules123 (ASN (neighbor f)) msg" by (rule validateOpen_accept)
  with validateOpen_context [OF assms] have f': "f' = afterRule4 f msg" by simp
  show ?thesis unfolding f'
  proof (intro conjI impI)
    show "holdTime (afterRule4 f msg) = min (holdTime f) (uint (openMessage.holdTime msg) * Second)"
      by (rule afterRule4_holdTime)
  next
    assume "holdTime f = HoldTime (neighbor f)"
    then show "holdTime (afterRule4 f msg)
        = min (HoldTime (neighbor f)) (uint (openMessage.holdTime msg) * Second)"
      by (simp add: afterRule4_holdTime)
  next
    assume "0 \<le> holdTime f \<and> keepAliveTime f = keepalivePeriod (holdTime f)"
    then show "keepAliveTime (afterRule4 f msg) = keepalivePeriod (holdTime (afterRule4 f msg))"
      by (intro afterRule4_keepalive) simp_all
  qed
qed

text \<open>Configured 180 s and peer 30 s give a hold time of 30 s and a keepalive period of 10 s.\<close>

theorem validateOpen_negotiates_witness:
  "validateOpen exampleSerialize exampleFSM (peerOpen 30 1) = Returns (None, loweredFSM)
   \<and> holdTime exampleFSM = HoldTime (neighbor exampleFSM)
   \<and> 0 \<le> holdTime exampleFSM
   \<and> keepAliveTime exampleFSM = keepalivePeriod (holdTime exampleFSM)
   \<and> holdTime loweredFSM = min (180 * Second) (30 * Second)
   \<and> holdTime loweredFSM = 30 * Second
   \<and> keepAliveTime loweredFSM = keepalivePeriod (holdTime loweredFSM)
   \<and> keepAliveTime loweredFSM = 10 * Second"
proof -
  have v: "validateOpen exampleSerialize exampleFSM (peerOpen 30 1) = Returns (None, loweredFSM)"
    by (simp add: validateOpen_def loweredFSM_def example_defs BgpLsAFI_def BgpLsSAFI_def)
  have pre: "holdTime exampleFSM = HoldTime (neighbor exampleFSM)" "0 \<le> holdTime exampleFSM"
    "keepAliveTime exampleFSM = keepalivePeriod (holdTime exampleFSM)"
    by (simp_all add: example_defs keepalivePeriod_def)
  from validateOpen_negotiates [OF v] pre show ?thesis
    by (simp add: v) (simp add: example_defs loweredFSM_def)
qed

text \<open>The claim as stated fails on the second session of a neighbor configured with 180 s:
  the first peer OPEN (30 s) was accepted, the next one (90 s) is accepted too, and the hold
  time stays 30 s, not \<open>min 180 90\<close>.\<close>

theorem validateOpen_negotiates_counterexample:
  "validateOpen exampleSerialize exampleFSM (peerOpen 30 1) = Returns (None, loweredFSM)
   \<and> validateOpen exampleSerialize loweredFSM (peerOpen 90 1) = Returns (None, loweredFSM)
   \<and> HoldTime (neighbor loweredFSM) = 180 * Second
   \<and> holdTime loweredFSM = 30 * Second
   \<and> holdTime loweredFSM
       \<noteq> min (HoldTime (neighbor loweredFSM)) (uint (openMessage.holdTime (peerOpen 90 1)) * Second)"
  by (simp add: validateOpen_def loweredFSM_def example_defs BgpLsAFI_def BgpLsSAFI_def)

subsection \<open>C5: the context when the validator returns an error\<close>

text \<open>
  Claim C5 says that \<open>validateOpen\<close> leaves the hold time and the keepalive period unchanged
  whenever it returns an error. The code lowers them (rule 4) right after rules 1 to 3 and
  before rules 5 to 9. What holds: an error of rule 1, 2 or 3 (version, AS field, hold time
  below 3) leaves the context unchanged; an error of a later rule leaves the context as rule
  4 made it, with the hold time lowered to the peer's when that is less.
\<close>

theorem validateOpen_error_context:
  assumes "validateOpen ser f msg = Returns (Some e, f')"
  shows "(version msg \<noteq> 4
            \<or> (asn msg \<noteq> asTrans \<and> asn msg \<noteq> ucast (ASN (neighbor f)))
            \<or> openMessage.holdTime msg < 3 \<longrightarrow> f' = f)
       \<and> (version msg = 4
            \<and> (asn msg = asTrans \<or> asn msg = ucast (ASN (neighbor f)))
            \<and> 3 \<le> openMessage.holdTime msg \<longrightarrow> f' = afterRule4 f msg)"
  using validateOpen_context [OF assms]
  by (auto simp: passesRules123_def)

theorem validateOpen_error_context_witness:
  "validateOpen exampleSerialize exampleFSM (peerOpen 30 0) =
     Returns (Some (errWithNotification ''bgp ID cannot be 0''
                NotifErrCodeOpenMessage NotifErrSubcodeBadBgpID []), loweredFSM)
   \<and> loweredFSM = afterRule4 exampleFSM (peerOpen 30 0)
   \<and> validateOpen exampleSerialize exampleFSM ((peerOpen 30 0)\<lparr> version := 5 \<rparr>) =
     Returns (Some (errWithNotification ''unsupported version number''
                NotifErrCodeOpenMessage NotifErrSubcodeUnsupportedVersionNumber [0, 4]), exampleFSM)"
proof -
  have v: "validateOpen exampleSerialize exampleFSM (peerOpen 30 0) =
     Returns (Some (errWithNotification ''bgp ID cannot be 0''
                NotifErrCodeOpenMessage NotifErrSubcodeBadBgpID []), loweredFSM)"
    by (simp add: validateOpen_def loweredFSM_def example_defs)
  have w: "validateOpen exampleSerialize exampleFSM ((peerOpen 30 0)\<lparr> version := 5 \<rparr>) =
     Returns (Some (errWithNotification ''unsupported version number''
                NotifErrCodeOpenMessage NotifErrSubcodeUnsupportedVersionNumber [0, 4]), exampleFSM)"
    by (simp add: validateOpen_def example_defs PutUint16_4)
  from validateOpen_error_context [OF v] validateOpen_error_context [OF w] v w
  show ?thesis by (simp add: peerOpen_def asTrans_def exampleFSM_def newFSM_def exampleConfig_def)
qed

text \<open>An OPEN with identifier 0 and a hold time of 30 s is rejected (BadBgpID), and the hold
  time has gone from 180 s to 30 s, the keepalive period from 60 s to 10 s.\<close>

theorem validateOpen_error_context_counterexample:
  "validateOpen exampleSerialize exampleFSM (peerOpen 30 0) =
     Returns (Some (errWithNotification ''bgp ID cannot be 0''
                NotifErrCodeOpenMessage NotifErrSubcodeBadBgpID []), loweredFSM)
   \<and> holdTime exampleFSM = 180 * Second \<and> holdTime loweredFSM = 30 * Second
   \<and> keepAliveTime exampleFSM = 60 * Second \<and> keepAliveTime loweredFSM = 10 * Second"
  by (simp add: validateOpen_def loweredFSM_def example_defs)

subsection \<open>C7: the transition guard\<close>

text \<open>
  Claim C7. \<open>transition\<close> accepts a requested transition exactly when the pair (current
  state, next state) is an edge of the table of section 4.6, and then sets the state; and
  \<open>transitionAndPanicOnErr\<close>, through which the driver applies every handler's result,
  panics on every other pair.
\<close>

theorem transition_guard:
  "transition f state =
     (if allowedEdge (s f) state then Inr (f\<lparr> s := state \<rparr>) else Inl errInvalidStateTransition)
   \<and> transitionAndPanicOnErr f state =
     (if allowedEdge (s f) state then Returns (f\<lparr> s := state \<rparr>) else Panics)"
  by (cases state; cases "s f"; simp add: transition_def transitionAndPanicOnErr_def allowedEdge_def)

theorem transition_guard_witness:
  "transition exampleFSM ConnectState = Inr (exampleFSM\<lparr> s := ConnectState \<rparr>)
   \<and> transition exampleFSM EstablishedState = Inl errInvalidStateTransition
   \<and> transitionAndPanicOnErr exampleFSM EstablishedState = Panics"
  using transition_guard [of exampleFSM ConnectState] transition_guard [of exampleFSM EstablishedState]
  by (simp add: allowedEdge_def exampleFSM_def newFSM_def)

subsection \<open>C8: an OPEN received in Established\<close>

text \<open>
  Claim C8 says that on every OPEN received in Established the FSM emits a NeighborErr
  event, sends a NOTIFICATION MessageHeaderError / BadMessageType whose data is the single
  byte \<open>OpenMessageType\<close>, tears the connection down and returns Idle. The emit is a
  \<^verbatim>\<open>select\<close> against the disable channel, as every emit of the FSM is. What holds, after any
  rounds that kept the session up: if the event is sent, the handler ends with exactly
  these four steps and returns Idle; if a disable request is received instead, the handler
  ends with draining the hold timer and tearing the connection down, and returns Disabled.
  Which NOTIFICATION the peer is sent on that second path is not part of the statement.
\<close>

theorem established_open:
  assumes "list_all keepsSession pre"
  shows "\<exists>acts acts'.
      established f (pre @ EstablishedMsg (Open m) EventSent # rest) =
        Returns (acts @ [Emit (EventNeighborErr (neighbor f)
                           (errorString ''open message received while in established state'')),
                         SendNotification NotifErrCodeMessageHeader NotifErrSubcodeBadType
                           [OpenMessageType],
                         DrainHoldTimer, CleanupConn], IdleState)
    \<and> established f (pre @ EstablishedMsg (Open m) DisableReceived # rest) =
        Returns (acts' @ [DrainHoldTimer, CleanupConn], DisabledState)"
proof -
  from established_keepsSession [OF assms] obtain acts
    where a: "\<And>rest. established f (pre @ rest) = prepend acts (established f rest)"
    by blast
  show ?thesis
    by (rule exI [of _ acts], rule exI [of _ acts]) (simp add: a prepend_Returns)
qed

theorem established_open_witness:
  "established exampleFSM
     [EstablishedMsg KeepAlive EventSent, EstablishedMsg (Open (peerOpen 90 1)) EventSent] =
     Returns ([DrainHoldTimer, ResetHoldTimer (180 * Second),
               Emit (EventNeighborErr exampleConfig
                       (errorString ''open message received while in established state'')),
               SendNotification NotifErrCodeMessageHeader NotifErrSubcodeBadType [1],
               DrainHoldTimer, CleanupConn], IdleState)"
  using established_open [of "[EstablishedMsg KeepAlive EventSent]" exampleFSM "peerOpen 90 1" "[]"]
  by (simp add: prepend_def exampleFSM_def newFSM_def exampleConfig_def OpenMessageType_def)

text \<open>The claim as stated fails when the shutdown request wins the race: the handler returns
  Disabled, not Idle, and the event is not among its actions.\<close>

theorem established_open_counterexample:
  "established exampleFSM [EstablishedMsg (Open (peerOpen 90 1)) DisableReceived] =
     Returns ([DrainHoldTimer, CleanupConn], DisabledState)"
  by simp

subsection \<open>C6: the hold time of the OPEN that Connect sends\<close>

text \<open>
  Claim C6 says that every OPEN the Connect handler sends carries the configured hold time,
  also on a reconnection after a session that negotiated a lower one. \<open>connect\<close> passes
  \<^verbatim>\<open>f.holdTime\<close>, the field \<open>validateOpen\<close> lowers, and the FSM has no other copy of the
  negotiated value. What holds: the OPEN written is \<open>newOpenMessage\<close> of the FSM's current
  hold time, so its hold_time is that duration in whole seconds as a uint16; it is the
  configured hold time as long as the FSM still holds that one.
\<close>

theorem connect_open_holdTime:
  assumes "connect f sel = Returns (acts, st)" and "WriteOpen m \<in> set acts"
  shows "m = newOpenMessage (localASN f) (holdTime f) (Address (neighbor f))
     \<and> openMessage.holdTime m = word_of_int (quo (holdTime f) Second)
     \<and> (holdTime f = HoldTime (neighbor f) \<longrightarrow>
          openMessage.holdTime m = word_of_int (quo (HoldTime (neighbor f)) Second))"
proof -
  have m: "m = newOpenMessage (localASN f) (holdTime f) (Address (neighbor f))"
  proof (cases sel)
    case (ConnectRetryTimerThenConn step)
    with assms obtain acts' where "connect_sendOpen f step = Returns (acts', st)"
      and "WriteOpen m \<in> set acts'"
      by (cases "connect_sendOpen f step") (auto simp: connect_def prepend_def)
    then show ?thesis by (rule connect_sendOpen_WriteOpen)
  next
    case (ConnectConn step)
    with assms obtain acts' where "connect_sendOpen f step = Returns (acts', st)"
      and "WriteOpen m \<in> set acts'"
      by (cases "connect_sendOpen f step") (auto simp: connect_def prepend_def)
    then show ?thesis by (rule connect_sendOpen_WriteOpen)
  qed (use assms in \<open>auto simp: connect_def prepend_def split: race.splits\<close>)
  then show ?thesis by (simp add: newOpenMessage_def)
qed

theorem connect_open_holdTime_witness:
  "connect (exampleFSM\<lparr> s := ConnectState \<rparr>) (ConnectConn WriteSucceeds) =
     Returns ([ResetConnectRetryTimer connectRetryTime, Dial, CancelDial, StopConnectRetryTimer,
               StartReader, WriteOpen (newOpenMessage 65000 (180 * Second) [127, 0, 0, 1])],
              OpenSentState)
   \<and> openMessage.holdTime (newOpenMessage 65000 (180 * Second) [127, 0, 0, 1]) = 180
   \<and> holdTime (exampleFSM\<lparr> s := ConnectState \<rparr>) = HoldTime (neighbor (exampleFSM\<lparr> s := ConnectState \<rparr>))"
proof -
  have c: "connect (exampleFSM\<lparr> s := ConnectState \<rparr>) (ConnectConn WriteSucceeds) =
     Returns ([ResetConnectRetryTimer connectRetryTime, Dial, CancelDial, StopConnectRetryTimer,
               StartReader, WriteOpen (newOpenMessage 65000 (180 * Second) [127, 0, 0, 1])],
              OpenSentState)"
    by (simp add: connect_def connect_sendOpen_def prepend_def exampleFSM_def newFSM_def
          exampleConfig_def)
  from connect_open_holdTime [OF c, of "newOpenMessage 65000 (180 * Second) [127, 0, 0, 1]"] c
  show ?thesis
    by (simp add: exampleFSM_def newFSM_def exampleConfig_def Second_def quo_def)
qed

text \<open>Over two sessions of a neighbor configured with 180 s, the first peer offering 30 s: the
  OPEN messages written carry 180 and then 30.\<close>

theorem connect_open_holdTime_counterexample:
  "openHoldTimes (actionsOf (loop exampleSerialize exampleFSM
       (twoSessions (peerOpen 30 1) (peerOpen 90 1)))) = [180, 30]
   \<and> word_of_int (quo (HoldTime exampleConfig) Second) = (180 :: 16 word)
   \<and> contextOf (loop exampleSerialize exampleFSM (twoSessions (peerOpen 30 1) (peerOpen 90 1)))
       = Some (loweredFSM\<lparr> s := DisabledState \<rparr>)"
  by code_simp

subsection \<open>C1: the state when the driver returns\<close>

text \<open>
  Claim C1 says that when the driver loop returns, the state is \<open>DisabledState\<close>, so that a
  later \<^verbatim>\<open>shut()\<close> returns at once. The handlers do return \<open>DisabledState\<close> on a disable
  request, and the loop then sets it and echoes. But when the request arrives while the
  loop itself is sending the state transition event, the loop echoes and returns without a
  transition: the driver of a fresh FSM shut down at that point leaves the state Idle, and
  a second \<^verbatim>\<open>shut()\<close> blocks. The same happens in every other state, here Established.
  This is the only way out that leaves another state than \<open>DisabledState\<close> (lemma
  \<open>loop_exit_state\<close>).
\<close>

theorem loop_exit_without_transition:
  "loop ser (newFSM config lASN) ((DisableReceived, env) # rest)
     = Returns ([EchoDisable], newFSM config lASN)
   \<and> s (newFSM config lASN) = IdleState
   \<and> shut_after_exit (newFSM config lASN) = Blocks
   \<and> loop ser (f\<lparr> s := EstablishedState \<rparr>) ((DisableReceived, env) # rest)
       = Returns ([EchoDisable], f\<lparr> s := EstablishedState \<rparr>)
   \<and> shut_after_exit (f\<lparr> s := EstablishedState \<rparr>) = Blocks"
  by (simp add: newFSM_def shut_after_exit_def)

end
